theory Spec2Isabelle
  imports Complex_Main
begin

section \<open>Warm Pulse Arcade (src/src/App.tsx)\<close>

text \<open>
  JavaScript numbers are modelled as real numbers: the rounding of IEEE doubles is not
  modelled, and the one division whose denominator can be zero (Heartbeat's
  \<^verbatim>\<open>60000/avg\<close>) is modelled with an explicit \<open>+Infinity\<close>. React state is
  modelled by explicit state passing: every handler takes the component's state and
  returns the new one. \<^verbatim>\<open>Math.random()\<close> and \<^verbatim>\<open>performance.now()\<close> are inputs.
\<close>

subsection \<open>Utilities\<close>

text \<open>\<^verbatim>\<open>const clamp = (v, a, b) => Math.max(a, Math.min(b, v));\<close>\<close>

definition clamp :: "real \<Rightarrow> real \<Rightarrow> real \<Rightarrow> real" where
  "clamp v a b = max a (min b v)"

text \<open>\<^verbatim>\<open>const rand = (min, max) => Math.random() * (max - min) + min;\<close>
  The first argument is the value \<^verbatim>\<open>Math.random()\<close> returned.\<close>

definition rand :: "real \<Rightarrow> real \<Rightarrow> real \<Rightarrow> real" where
  "rand u mn mx = u * (mx - mn) + mn"

text \<open>\<^verbatim>\<open>Math.round\<close> rounds to the nearest integer, halves upwards; the result is
  again a number.\<close>

definition Math_round :: "real \<Rightarrow> real" where
  "Math_round x = of_int \<lfloor>x + 1 / 2\<rfloor>"

definition Math_floor :: "real \<Rightarrow> real" where
  "Math_floor x = of_int \<lfloor>x\<rfloor>"

text \<open>The remainder operator \<^verbatim>\<open>a % b\<close> of JavaScript truncates the quotient towards
  zero (the result has the sign of the dividend); \<open>b\<close> is not zero where it is used.\<close>

definition js_rem :: "real \<Rightarrow> real \<Rightarrow> real" where
  "js_rem a b = a - b * of_int (if 0 \<le> a / b then \<lfloor>a / b\<rfloor> else \<lceil>a / b\<rceil>)"

text \<open>The expression \<^verbatim>\<open>1 - clamp(err / tolerance, 0, 1)\<close>, which the tap handlers of
  PulseLink (tolerance \<^verbatim>\<open>interval / 2\<close>), EchoOrb (tolerance 800) and Heartbeat
  (tolerance \<^verbatim>\<open>interval / 2\<close>) all compute.\<close>

definition accuracyFromError :: "real \<Rightarrow> real \<Rightarrow> real" where
  "accuracyFromError err tolerance = 1 - clamp (err / tolerance) 0 1"

subsection \<open>Palettes\<close>

text \<open>The fields \<^verbatim>\<open>g\<close> and \<^verbatim>\<open>a\<close> of a palette are named \<open>grad\<close> and \<open>cols\<close>.\<close>

record palette =
  key :: string
  grad :: string
  cols :: "string list"

definition PALETTES :: "palette list" where
  "PALETTES =
    [\<lparr>key = ''aurora'', grad = ''from-rose-300 via-amber-200 to-emerald-200'',
       cols = [''#fecdd3'', ''#fde68a'', ''#a7f3d0'']\<rparr>,
     \<lparr>key = ''molten'', grad = ''from-orange-300 via-rose-200 to-pink-300'',
       cols = [''#fdba74'', ''#fecdd3'', ''#f9a8d4'']\<rparr>,
     \<lparr>key = ''sunset'', grad = ''from-amber-200 via-rose-200 to-violet-200'',
       cols = [''#fde68a'', ''#fecdd3'', ''#ddd6fe'']\<rparr>,
     \<lparr>key = ''lilac'', grad = ''from-fuchsia-200 via-violet-200 to-sky-200'',
       cols = [''#f5d0fe'', ''#ddd6fe'', ''#bae6fd'']\<rparr>,
     \<lparr>key = ''reef'', grad = ''from-teal-200 via-emerald-200 to-sky-200'',
       cols = [''#99f6e4'', ''#a7f3d0'', ''#bae6fd'']\<rparr>]"

subsection \<open>Store and persistence\<close>

datatype GameKey = KPulse | KHeat | KTension | KEcho | KPressure | KAscend | KHeart

record SaveState =
  tokens :: real
  palette :: string
  best :: "GameKey \<Rightarrow> real"

text \<open>What \<^verbatim>\<open>JSON.parse\<close> can return.\<close>

datatype json =
  JNull | JBool bool | JNum real | JStr string | JArr "json list"
  | JObj "(string \<times> json) list"

datatype exn = StorageError | SyntaxError

text \<open>The object literal that \<^verbatim>\<open>loadState\<close> returns on its last line.\<close>

definition defaultState :: json where
  "defaultState =
     JObj [(''tokens'', JNum 0), (''palette'', JStr (key (PALETTES ! 0))),
           (''best'', JObj [(''pulse'', JNum 0), (''heat'', JNum 0), (''tension'', JNum 0),
                            (''echo'', JNum 0), (''pressure'', JNum 0), (''ascend'', JNum 0),
                            (''heart'', JNum 0)])]"

text \<open>The body of the \<^verbatim>\<open>try\<close> block: \<open>getItem\<close> is what
  \<^verbatim>\<open>localStorage.getItem(LS_KEY)\<close> does (it throws, or returns \<^verbatim>\<open>null\<close>, or a string),
  \<open>parse\<close> is \<^verbatim>\<open>JSON.parse\<close> (it throws on a text that is not JSON). The result
  \<open>Inr None\<close> is falling out of the block without returning: the empty string is falsy.\<close>

definition loadState_try :: "exn + string option \<Rightarrow> (string \<Rightarrow> exn + json) \<Rightarrow> exn + json option" where
  "loadState_try getItem parse =
     (case getItem of
        Inl e \<Rightarrow> Inl e
      | Inr None \<Rightarrow> Inr None
      | Inr (Some txt) \<Rightarrow>
          (if txt = [] then Inr None
           else (case parse txt of Inl e \<Rightarrow> Inl e | Inr v \<Rightarrow> Inr (Some v))))"

text \<open>\<^verbatim>\<open>try { ... } catch {}\<close> followed by the return of the default.\<close>

definition loadState :: "exn + string option \<Rightarrow> (string \<Rightarrow> exn + json) \<Rightarrow> exn + json" where
  "loadState getItem parse =
     (case loadState_try getItem parse of
        Inl e \<Rightarrow> Inr defaultState
      | Inr None \<Rightarrow> Inr defaultState
      | Inr (Some v) \<Rightarrow> Inr v)"

subsection \<open>Main App: award, spend, onExit\<close>

datatype View = VMenu | VStore | VAbout | VGame GameKey

text \<open>\<^verbatim>\<open>const award = (n) => setState(s => ({...s, tokens: s.tokens + Math.max(0, n)}));\<close>\<close>

definition award :: "real \<Rightarrow> SaveState \<Rightarrow> SaveState" where
  "award n s = s\<lparr>tokens := tokens s + max 0 n\<rparr>"

text \<open>\<^verbatim>\<open>const spend = (n) => setState(s => ({...s, tokens: Math.max(0, s.tokens - n)}));\<close>\<close>

definition spend :: "real \<Rightarrow> SaveState \<Rightarrow> SaveState" where
  "spend n s = s\<lparr>tokens := max 0 (tokens s - n)\<rparr>"

text \<open>\<^verbatim>\<open>onExit\<close> acts on the state and on the view.\<close>

fun onExit :: "real \<Rightarrow> SaveState \<times> View \<Rightarrow> SaveState \<times> View" where
  "onExit gscore (s, VMenu) = (s, VMenu)"
| "onExit gscore (s, VStore) = (s, VStore)"
| "onExit gscore (s, VAbout) = (s, VAbout)"
| "onExit gscore (s, VGame k) = (s\<lparr>best := (best s)(k := max (best s k) gscore)\<rparr>, VMenu)"

text \<open>The spec's \<^verbatim>\<open>recordBest(gameKey, score)\<close> is \<^verbatim>\<open>onExit\<close> while the view is that
  game; this is its effect on the stored state.\<close>

definition recordBest :: "GameKey \<Rightarrow> SaveState \<Rightarrow> real \<Rightarrow> SaveState" where
  "recordBest k s gscore = fst (onExit gscore (s, VGame k))"

text \<open>The shop's Buy button of palette \<open>p\<close>: it is disabled when that palette is equipped
  (the state stores the key of the equipped palette) or when there are fewer than 20
  tokens, and a disabled button does not run its click handler; otherwise
  \<^verbatim>\<open>spend(20); setPalette(p)\<close>, and the effect on \<^verbatim>\<open>palette.key\<close> stores the key in
  the state.\<close>

definition buy_click :: "palette \<Rightarrow> SaveState \<Rightarrow> SaveState" where
  "buy_click p s =
     (if palette s = key p \<or> tokens s < 20 then s
      else (spend 20 s)\<lparr>palette := key p\<rparr>)"

text \<open>The calls an Exit button makes on the callbacks it was given, in order.\<close>

datatype call = Award real | OnExit real

fun run_call :: "SaveState \<times> View \<Rightarrow> call \<Rightarrow> SaveState \<times> View" where
  "run_call (s, v) (Award n) = (award n s, v)"
| "run_call (s, v) (OnExit gscore) = onExit gscore (s, v)"

text \<open>\<^verbatim>\<open>onClick={() => { award(Math.floor(score/5)); onExit(score); }}\<close> and its six
  siblings, one per game component.\<close>

definition GamePulseLink_exit :: "real \<Rightarrow> call list" where
  "GamePulseLink_exit score = [Award (Math_floor (score / 5)), OnExit score]"

definition GameHeatBloom_exit :: "real \<Rightarrow> call list" where
  "GameHeatBloom_exit score = [Award (Math_floor (score / 5)), OnExit score]"

definition GameTensionLine_exit :: "real \<Rightarrow> call list" where
  "GameTensionLine_exit score = [Award (Math_floor (score / 6)), OnExit score]"

definition GameEchoOrb_exit :: "real \<Rightarrow> call list" where
  "GameEchoOrb_exit score = [Award (Math_floor (score / 6)), OnExit score]"

definition GamePressureCraft_exit :: "real \<Rightarrow> call list" where
  "GamePressureCraft_exit score = [Award (Math_floor (score / 6)), OnExit score]"

definition GameAscendLight_exit :: "real \<Rightarrow> call list" where
  "GameAscendLight_exit score = [Award (Math_floor (score / 8)), OnExit score]"

definition GameHeartbeat_exit :: "real \<Rightarrow> call list" where
  "GameHeartbeat_exit score = [Award (Math_floor (score / 6)), OnExit score]"

text \<open>\<^verbatim>\<open>GameFrame\<close> chooses the component, hence the Exit button.\<close>

fun GameFrame_exit :: "GameKey \<Rightarrow> real \<Rightarrow> call list" where
  "GameFrame_exit KPulse score = GamePulseLink_exit score"
| "GameFrame_exit KHeat score = GameHeatBloom_exit score"
| "GameFrame_exit KTension score = GameTensionLine_exit score"
| "GameFrame_exit KEcho score = GameEchoOrb_exit score"
| "GameFrame_exit KPressure score = GamePressureCraft_exit score"
| "GameFrame_exit KAscend score = GameAscendLight_exit score"
| "GameFrame_exit KHeart score = GameHeartbeat_exit score"

subsection \<open>Timers\<close>

text \<open>
  \<^verbatim>\<open>setTimeout\<close> and \<^verbatim>\<open>clearTimeout\<close>: the pending callbacks of a component are a
  list of timers in the order they were set, each with its id (a fresh positive number),
  the time it is due and its callback. A delay below 0 counts as 0. Clearing an id that is
  not pending (or \<^verbatim>\<open>undefined\<close>, here \<open>None\<close>) does nothing.
\<close>

record 'c timer =
  tid :: nat
  due :: real
  cb :: 'c

definition setTimeout :: "real \<Rightarrow> 'c \<Rightarrow> real \<Rightarrow> nat \<Rightarrow> 'c timer list \<Rightarrow> 'c timer list" where
  "setTimeout now f delay i q = q @ [\<lparr>tid = i, due = now + max 0 delay, cb = f\<rparr>]"

definition clearTimeout :: "nat option \<Rightarrow> 'c timer list \<Rightarrow> 'c timer list" where
  "clearTimeout i q = (case i of None \<Rightarrow> q | Some j \<Rightarrow> filter (\<lambda>x. tid x \<noteq> j) q)"

text \<open>The timer that fires next: the one due first, and of two due together the one set
  first.\<close>

fun earliest :: "'c timer list \<Rightarrow> 'c timer option" where
  "earliest [] = None"
| "earliest (x # xs) =
     (case earliest xs of
        None \<Rightarrow> Some x
      | Some y \<Rightarrow> if due x \<le> due y then Some x else Some y)"

subsection \<open>Game: PulseLink\<close>

text \<open>
  The state of the component: \<^verbatim>\<open>score\<close>, \<^verbatim>\<open>beatAt\<close>, \<^verbatim>\<open>beatRef.current.bpm\<close>, the
  variable \<^verbatim>\<open>id\<close> of the beat effect, the pending timers, the next timer id, and whether
  the component is mounted (React ignores a state setter called after unmounting). The
  animation of \<^verbatim>\<open>phase\<close>, which only draws, and the calls of \<^verbatim>\<open>sound\<close> and
  \<^verbatim>\<open>vibrate\<close> are recorded only in EchoOrb, where a claim is about them.
\<close>

datatype PulseCallback = PulseTick

record PulseLink =
  pl_score :: real
  pl_beatAt :: real
  pl_bpm :: real
  pl_id :: "nat option"
  pl_pending :: "PulseCallback timer list"
  pl_next :: nat
  pl_mounted :: bool

definition GamePulseLink_init :: PulseLink where
  "GamePulseLink_init =
     \<lparr>pl_score = 0, pl_beatAt = 0, pl_bpm = 84, pl_id = None, pl_pending = [],
      pl_next = 1, pl_mounted = True\<rparr>"

text \<open>\<^verbatim>\<open>tick\<close>, run at time \<open>now\<close>.\<close>

definition GamePulseLink_tick :: "real \<Rightarrow> PulseLink \<Rightarrow> PulseLink" where
  "GamePulseLink_tick now st =
     (let interval = 60000 / pl_bpm st in
      st\<lparr>pl_beatAt := (if pl_mounted st then now else pl_beatAt st),
         pl_id := Some (pl_next st),
         pl_pending := setTimeout now PulseTick interval (pl_next st) (pl_pending st),
         pl_next := Suc (pl_next st)\<rparr>)"

text \<open>\<^verbatim>\<open>start\<close>, run by the beat effect when the component is mounted; \<open>u\<close> is the
  random number drawn for the tempo.\<close>

definition GamePulseLink_start :: "real \<Rightarrow> real \<Rightarrow> PulseLink \<Rightarrow> PulseLink" where
  "GamePulseLink_start now u st =
     GamePulseLink_tick now (st\<lparr>pl_bpm := Math_round (rand u 72 128)\<rparr>)"

text \<open>The cleanup of the beat effect: \<^verbatim>\<open>if (id) clearTimeout(id)\<close>.\<close>

definition GamePulseLink_cleanup :: "PulseLink \<Rightarrow> PulseLink" where
  "GamePulseLink_cleanup st =
     (case pl_id st of
        None \<Rightarrow> st
      | Some i \<Rightarrow> if i \<noteq> 0 then st\<lparr>pl_pending := clearTimeout (Some i) (pl_pending st)\<rparr> else st)"

definition GamePulseLink_onTap :: "real \<Rightarrow> PulseLink \<Rightarrow> PulseLink" where
  "GamePulseLink_onTap t st =
     (let interval = 60000 / pl_bpm st;
          d = \<bar>js_rem (t - pl_beatAt st) interval\<bar>;
          err = min d (interval - d);
          acc = 1 - clamp (err / (interval / 2)) 0 1;
          gain = Math_round (acc * 10)
      in st\<lparr>pl_score := pl_score st + gain\<rparr>)"

definition GamePulseLink_fire :: "PulseLink \<Rightarrow> PulseLink" where
  "GamePulseLink_fire st =
     (case earliest (pl_pending st) of
        None \<Rightarrow> st
      | Some x \<Rightarrow>
          GamePulseLink_tick (due x)
            (st\<lparr>pl_pending := filter (\<lambda>y. tid y \<noteq> tid x) (pl_pending st)\<rparr>))"

definition GamePulseLink_unmount :: "PulseLink \<Rightarrow> PulseLink" where
  "GamePulseLink_unmount st = (GamePulseLink_cleanup st)\<lparr>pl_mounted := False\<rparr>"

text \<open>What can happen to a session: a tap at a time, the next timer firing, leaving the
  game. The Tap button is gone once the component is unmounted.\<close>

datatype PulseEvent = PulseTap real | PulseFire | PulseExit

fun GamePulseLink_step :: "PulseLink \<Rightarrow> PulseEvent \<Rightarrow> PulseLink" where
  "GamePulseLink_step st (PulseTap t) = (if pl_mounted st then GamePulseLink_onTap t st else st)"
| "GamePulseLink_step st PulseFire = GamePulseLink_fire st"
| "GamePulseLink_step st PulseExit = (if pl_mounted st then GamePulseLink_unmount st else st)"

subsection \<open>Game: HeatBloom\<close>

text \<open>The frame gap in seconds, \<^verbatim>\<open>(t - last) / 1000\<close>, as every frame loop computes it.\<close>

definition frame_dt :: "real \<Rightarrow> real \<Rightarrow> real" where
  "frame_dt t last_t = (t - last_t) / 1000"

record HeatBloom =
  hb_score :: real
  hb_heat :: real
  hb_min :: real
  hb_max :: real
  hb_holding :: bool
  hb_viewHeat :: real
  hb_bloom :: real
  hb_last :: real

definition GameHeatBloom_init :: "real \<Rightarrow> HeatBloom" where
  "GameHeatBloom_init now =
     \<lparr>hb_score = 0, hb_heat = 0, hb_min = 0.45, hb_max = 0.65, hb_holding = False,
      hb_viewHeat = 0, hb_bloom = 0, hb_last = now\<rparr>"

text \<open>One run of \<^verbatim>\<open>loop\<close> at time \<open>t\<close>; \<open>u1\<close> to \<open>u4\<close> are the random numbers for the
  new bands. The effect depends on \<^verbatim>\<open>bloom\<close>, so the loop reads the current value.\<close>

definition GameHeatBloom_loop :: "real \<Rightarrow> real \<Rightarrow> real \<Rightarrow> real \<Rightarrow> real \<Rightarrow> HeatBloom \<Rightarrow> HeatBloom" where
  "GameHeatBloom_loop t u1 u2 u3 u4 st =
     (let dt = frame_dt t (hb_last st);
          kUp = 0.55; kDown = 0.35;
          heat1 = clamp (if hb_holding st then hb_heat st + kUp * dt
                         else hb_heat st - kDown * dt) 0 1;
          st1 = st\<lparr>hb_last := t, hb_heat := heat1, hb_viewHeat := heat1\<rparr>;
          inBand = (hb_min st1 \<le> heat1 \<and> heat1 \<le> hb_max st1);
          st2 = (if inBand then
                   (let st' = st1\<lparr>hb_bloom := clamp (hb_bloom st1 + dt * 0.6) 0 1\<rparr> in
                    if 1 \<le> hb_bloom st + dt * 0.6 then
                      st'\<lparr>hb_score := hb_score st' + 10, hb_bloom := 0,
                          hb_min := rand u1 0.3 0.5, hb_max := rand u2 0.6 0.8\<rparr>
                    else st')
                 else st1\<lparr>hb_bloom := clamp (hb_bloom st1 - dt * 0.8) 0 1\<rparr>)
      in if 0.995 \<le> hb_heat st2 then
           st2\<lparr>hb_score := max 0 (hb_score st2 - 3), hb_heat := 0.3, hb_bloom := 0,
               hb_min := rand u3 0.35 0.55, hb_max := rand u4 0.6 0.85\<rparr>
         else st2)"

text \<open>The events of a session: pointer down, pointer up or cancel, a frame, and the effect
  starting again after \<^verbatim>\<open>bloom\<close> changed (\<^verbatim>\<open>let last = now()\<close>).\<close>

datatype HeatEvent = HeatDown | HeatUp | HeatFrame real real real real real | HeatEffect real

fun GameHeatBloom_step :: "HeatBloom \<Rightarrow> HeatEvent \<Rightarrow> HeatBloom" where
  "GameHeatBloom_step st HeatDown = st\<lparr>hb_holding := True\<rparr>"
| "GameHeatBloom_step st HeatUp = st\<lparr>hb_holding := False\<rparr>"
| "GameHeatBloom_step st (HeatFrame t u1 u2 u3 u4) = GameHeatBloom_loop t u1 u2 u3 u4 st"
| "GameHeatBloom_step st (HeatEffect now) = st\<lparr>hb_last := now\<rparr>"

subsection \<open>Game: TensionLine\<close>

record TensionLine =
  tl_score :: real
  tl_len :: real
  tl_target :: real
  tl_pulling :: bool
  tl_last :: real

definition GameTensionLine_init :: "real \<Rightarrow> real \<Rightarrow> TensionLine" where
  "GameTensionLine_init now u =
     \<lparr>tl_score = 0, tl_len = 0.4, tl_target = rand u 0.35 0.8, tl_pulling = False,
      tl_last = now\<rparr>"

definition GameTensionLine_onDown :: "TensionLine \<Rightarrow> TensionLine" where
  "GameTensionLine_onDown st = st\<lparr>tl_pulling := True\<rparr>"

definition GameTensionLine_onUp :: "real \<Rightarrow> TensionLine \<Rightarrow> TensionLine" where
  "GameTensionLine_onUp u st =
     (let err = \<bar>tl_len st - tl_target st\<bar>;
          pts = max 0 (Math_round (12 - err * 40))
      in st\<lparr>tl_pulling := False, tl_score := tl_score st + pts, tl_target := rand u 0.3 0.9\<rparr>)"

definition GameTensionLine_loop :: "real \<Rightarrow> TensionLine \<Rightarrow> TensionLine" where
  "GameTensionLine_loop t st =
     (let dt = frame_dt t (tl_last st) in
      st\<lparr>tl_last := t,
         tl_len := (if tl_pulling st then clamp (tl_len st + dt * 0.35) 0 1
                    else clamp (tl_len st - dt * 0.25) 0 1)\<rparr>)"

datatype TensionEvent = TensionDown | TensionUp real | TensionFrame real

fun GameTensionLine_step :: "TensionLine \<Rightarrow> TensionEvent \<Rightarrow> TensionLine" where
  "GameTensionLine_step st TensionDown = GameTensionLine_onDown st"
| "GameTensionLine_step st (TensionUp u) = GameTensionLine_onUp u st"
| "GameTensionLine_step st (TensionFrame t) = GameTensionLine_loop t st"

subsection \<open>Game: PressureCraft\<close>

record PressureCraft =
  pc_score :: real
  pc_level :: real
  pc_fill :: real
  pc_holding :: bool
  pc_a :: real
  pc_b :: real
  pc_dir :: real
  pc_last :: real

definition GamePressureCraft_init :: "real \<Rightarrow> PressureCraft" where
  "GamePressureCraft_init now =
     \<lparr>pc_score = 0, pc_level = 1, pc_fill = 0, pc_holding = False,
      pc_a = 0.5, pc_b = 0.7, pc_dir = 1, pc_last = now\<rparr>"

definition GamePressureCraft_loop :: "real \<Rightarrow> PressureCraft \<Rightarrow> PressureCraft" where
  "GamePressureCraft_loop t st =
     (let dt = frame_dt t (pc_last st);
          fill1 = clamp (pc_fill st + (if pc_holding st then 1 else - 1) * dt * 0.8) 0 1;
          speed = 0.2 + pc_level st * 0.04;
          a1 = pc_a st + pc_dir st * dt * speed;
          b1 = pc_b st + pc_dir st * dt * speed
      in if 1 \<le> b1 \<or> a1 \<le> 0 then
           st\<lparr>pc_last := t, pc_fill := fill1, pc_dir := pc_dir st * (- 1),
              pc_a := clamp a1 0 0.85, pc_b := clamp b1 0.15 1\<rparr>
         else st\<lparr>pc_last := t, pc_fill := fill1, pc_a := a1, pc_b := b1\<rparr>)"

definition GamePressureCraft_release :: "PressureCraft \<Rightarrow> PressureCraft" where
  "GamePressureCraft_release st =
     (if pc_a st \<le> pc_fill st \<and> pc_fill st \<le> pc_b st then
        st\<lparr>pc_holding := False, pc_score := pc_score st + 12, pc_level := pc_level st + 1,
           pc_fill := 0.15\<rparr>
      else st\<lparr>pc_holding := False, pc_score := max 0 (pc_score st - 4), pc_fill := 0.05\<rparr>)"

text \<open>The events: pointer down, pointer up or cancel, a frame, and the effect starting
  again after \<^verbatim>\<open>holding\<close> or \<^verbatim>\<open>level\<close> changed.\<close>

datatype PressureEvent = PressureDown | PressureRelease | PressureFrame real | PressureEffect real

fun GamePressureCraft_step :: "PressureCraft \<Rightarrow> PressureEvent \<Rightarrow> PressureCraft" where
  "GamePressureCraft_step st PressureDown = st\<lparr>pc_holding := True\<rparr>"
| "GamePressureCraft_step st PressureRelease = GamePressureCraft_release st"
| "GamePressureCraft_step st (PressureFrame t) = GamePressureCraft_loop t st"
| "GamePressureCraft_step st (PressureEffect now) = st\<lparr>pc_last := now\<rparr>"

subsection \<open>Game: Echo Orb\<close>

datatype EchoPhase = PListen | PTap | PResult

text \<open>A call of \<^verbatim>\<open>sound.tone(freq, dur)\<close> or of \<^verbatim>\<open>vibrate(pattern)\<close>; a pattern that is
  one number is the list of that number. \<^verbatim>\<open>sound.blip(success)\<close> is a tone.\<close>

datatype cue = Tone real real | Vibrate "real list"

definition blip :: "bool \<Rightarrow> cue" where
  "blip success = Tone (if success then 740 else 180) (if success then 0.06 else 0.12)"

text \<open>The three callbacks the component hands to \<^verbatim>\<open>setTimeout\<close>: the outer callback of
  the listen effect (with the \<^verbatim>\<open>intervalMs\<close> of the render that set it), its inner
  callback, and the callback set by the second tap.\<close>

datatype EchoCallback = EchoPulseOff real | EchoToTap | EchoResultDone

text \<open>The state: the five hooks of the component, the variable \<^verbatim>\<open>timer\<close> of the listen
  effect, the pending timers, the next timer id, whether the component is mounted, and the
  cues given so far, each with its time.\<close>

record EchoOrb =
  eo_phase :: EchoPhase
  eo_intervalMs :: real
  eo_score :: real
  eo_pulse :: real
  eo_taps :: "real list"
  eo_timer :: "nat option"
  eo_pending :: "EchoCallback timer list"
  eo_next :: nat
  eo_mounted :: bool
  eo_cues :: "(real \<times> cue) list"

definition GameEchoOrb_init :: EchoOrb where
  "GameEchoOrb_init =
     \<lparr>eo_phase = PListen, eo_intervalMs = 800, eo_score = 0, eo_pulse = 0, eo_taps = [],
      eo_timer = None, eo_pending = [], eo_next = 1, eo_mounted = True, eo_cues = []\<rparr>"

text \<open>The body of the listen effect, run at time \<open>now\<close>.\<close>

definition GameEchoOrb_effect :: "real \<Rightarrow> EchoOrb \<Rightarrow> EchoOrb" where
  "GameEchoOrb_effect now st =
     (if eo_phase st = PListen then
        st\<lparr>eo_pulse := 1,
           eo_cues := eo_cues st @ [(now, Tone 240 0.1), (now, Vibrate [10])],
           eo_pending := setTimeout now (EchoPulseOff (eo_intervalMs st)) 300 (eo_next st)
                           (eo_pending st),
           eo_timer := Some (eo_next st),
           eo_next := Suc (eo_next st)\<rparr>
      else st\<lparr>eo_timer := None\<rparr>)"

text \<open>Its cleanup: \<^verbatim>\<open>clearTimeout(timer)\<close>.\<close>

definition GameEchoOrb_cleanup :: "EchoOrb \<Rightarrow> EchoOrb" where
  "GameEchoOrb_cleanup st = st\<lparr>eo_pending := clearTimeout (eo_timer st) (eo_pending st)\<rparr>"

text \<open>After a handler has run on a mounted component, React runs the cleanup and the effect
  again if \<^verbatim>\<open>phase\<close> or \<^verbatim>\<open>intervalMs\<close> changed.\<close>

definition GameEchoOrb_commit :: "real \<Rightarrow> EchoOrb \<Rightarrow> EchoOrb \<Rightarrow> EchoOrb" where
  "GameEchoOrb_commit now old new =
     (if eo_mounted new \<and> (eo_phase new \<noteq> eo_phase old \<or> eo_intervalMs new \<noteq> eo_intervalMs old)
      then GameEchoOrb_effect now (GameEchoOrb_cleanup new)
      else new)"

definition GameEchoOrb_mount :: "real \<Rightarrow> EchoOrb" where
  "GameEchoOrb_mount now = GameEchoOrb_effect now GameEchoOrb_init"

definition GameEchoOrb_onTap :: "real \<Rightarrow> EchoOrb \<Rightarrow> EchoOrb" where
  "GameEchoOrb_onTap t st =
     (if eo_phase st \<noteq> PTap then st
      else
        (let taps = eo_taps st @ [t] in
         if length taps = 2 then
           (let d = \<bar>taps ! 1 - taps ! 0\<bar>;
                err = \<bar>d - eo_intervalMs st\<bar>;
                acc = 1 - clamp (err / 800) 0 1;
                pts = Math_round (acc * 12)
            in GameEchoOrb_commit t st
                 (st\<lparr>eo_taps := taps,
                     eo_score := eo_score st + pts,
                     eo_cues := eo_cues st @
                       (if 8 < pts then [(t, blip True), (t, Vibrate [10, 10, 10])]
                        else [(t, blip False)]),
                     eo_phase := PResult,
                     eo_pending := setTimeout t EchoResultDone 700 (eo_next st) (eo_pending st),
                     eo_next := Suc (eo_next st)\<rparr>))
         else st\<lparr>eo_taps := taps\<rparr>))"

text \<open>A callback run at time \<open>now\<close>; \<open>u\<close> is the random number for the next interval.
  State setters do nothing once the component is unmounted; the assignment to
  \<^verbatim>\<open>taps.current\<close> and the call of \<^verbatim>\<open>setTimeout\<close> are not state setters.\<close>

fun GameEchoOrb_run :: "real \<Rightarrow> real \<Rightarrow> EchoCallback \<Rightarrow> EchoOrb \<Rightarrow> EchoOrb" where
  "GameEchoOrb_run u now (EchoPulseOff ms) st =
     st\<lparr>eo_pulse := (if eo_mounted st then 0 else eo_pulse st),
        eo_pending := setTimeout now EchoToTap ms (eo_next st) (eo_pending st),
        eo_timer := Some (eo_next st),
        eo_next := Suc (eo_next st)\<rparr>"
| "GameEchoOrb_run u now EchoToTap st =
     (if eo_mounted st then GameEchoOrb_commit now st (st\<lparr>eo_phase := PTap\<rparr>) else st)"
| "GameEchoOrb_run u now EchoResultDone st =
     (if eo_mounted st then
        GameEchoOrb_commit now st
          (st\<lparr>eo_taps := [], eo_intervalMs := rand u 500 1400, eo_phase := PListen\<rparr>)
      else st\<lparr>eo_taps := []\<rparr>)"

text \<open>The next pending timer fires.\<close>

definition GameEchoOrb_fire :: "real \<Rightarrow> EchoOrb \<Rightarrow> EchoOrb" where
  "GameEchoOrb_fire u st =
     (case earliest (eo_pending st) of
        None \<Rightarrow> st
      | Some x \<Rightarrow>
          GameEchoOrb_run u (due x) (cb x)
            (st\<lparr>eo_pending := filter (\<lambda>y. tid y \<noteq> tid x) (eo_pending st)\<rparr>))"

text \<open>Leaving the game unmounts the component: React runs the cleanup of the effect.\<close>

definition GameEchoOrb_unmount :: "EchoOrb \<Rightarrow> EchoOrb" where
  "GameEchoOrb_unmount st = (GameEchoOrb_cleanup st)\<lparr>eo_mounted := False\<rparr>"

datatype EchoEvent = EchoTap real | EchoFire real | EchoExit

fun GameEchoOrb_step :: "EchoOrb \<Rightarrow> EchoEvent \<Rightarrow> EchoOrb" where
  "GameEchoOrb_step st (EchoTap t) = (if eo_mounted st then GameEchoOrb_onTap t st else st)"
| "GameEchoOrb_step st (EchoFire u) = GameEchoOrb_fire u st"
| "GameEchoOrb_step st EchoExit = (if eo_mounted st then GameEchoOrb_unmount st else st)"

text \<open>The shape of a mounted component during the listen phase, as the listen effect and
  its callbacks leave it: one timer is pending, and \<^verbatim>\<open>timer\<close> holds its id; the last two
  cues are the tone and the vibration of the effect, given at one time \<open>T\<close>; and either
  the pulse is on and the timer, due at \<open>T + 300\<close>, is the one that switches it off, or the
  pulse is off and the timer, due at \<open>T + 300 + intervalMs\<close>, is the one that starts the tap
  phase.\<close>

definition listen_shape :: "EchoOrb \<Rightarrow> bool" where
  "listen_shape s =
     (length (eo_pending s) = 1 \<and> eo_timer s = Some (tid (hd (eo_pending s))) \<and>
      (case cb (hd (eo_pending s)) of
         EchoPulseOff ms \<Rightarrow>
           ms = eo_intervalMs s \<and> eo_pulse s = 1 \<and>
           drop (length (eo_cues s) - 2) (eo_cues s) =
             [(due (hd (eo_pending s)) - 300, Tone 240 0.1),
              (due (hd (eo_pending s)) - 300, Vibrate [10])]
       | EchoToTap \<Rightarrow>
           eo_pulse s = 0 \<and>
           drop (length (eo_cues s) - 2) (eo_cues s) =
             [(due (hd (eo_pending s)) - 300 - max 0 (eo_intervalMs s), Tone 240 0.1),
              (due (hd (eo_pending s)) - 300 - max 0 (eo_intervalMs s), Vibrate [10])]
       | EchoResultDone \<Rightarrow> False))"

text \<open>The shape of a mounted component in each phase: in the tap phase no timer is
  pending, in the result phase only the timer set by the second tap.\<close>

definition echo_shape :: "EchoOrb \<Rightarrow> bool" where
  "echo_shape s =
     (case eo_phase s of
        PListen \<Rightarrow> listen_shape s
      | PTap \<Rightarrow> eo_pending s = [] \<and> eo_timer s = None
      | PResult \<Rightarrow> map cb (eo_pending s) = [EchoResultDone] \<and> eo_timer s = None)"

subsection \<open>Game: Ascend Light\<close>

record zone =
  zx :: real
  zy :: real
  zr :: real

record AscendLight =
  al_score :: real
  al_press :: bool
  al_W :: real
  al_H :: real
  al_y :: real
  al_vy :: real
  al_t :: real
  al_alive :: bool
  al_last :: real
  al_zones :: "zone list"

text \<open>\<^verbatim>\<open>resize\<close>, for a canvas of the given client width and height.\<close>

definition GameAscendLight_resize :: "real \<Rightarrow> real \<Rightarrow> AscendLight \<Rightarrow> AscendLight" where
  "GameAscendLight_resize cw ch st = st\<lparr>al_W := min 420 cw, al_H := min 720 ch\<rparr>"

text \<open>The start of the effect; \<open>rnd i\<close> is the random number drawn for zone \<open>i\<close>.\<close>

definition GameAscendLight_init :: "real \<Rightarrow> real \<Rightarrow> real \<Rightarrow> (nat \<Rightarrow> real) \<Rightarrow> AscendLight" where
  "GameAscendLight_init now cw ch rnd =
     (let W = min 420 cw; H = min 720 ch in
      \<lparr>al_score = 0, al_press = False, al_W = W, al_H = H, al_y = H * 0.6, al_vy = 0,
       al_t = 0, al_alive = True, al_last = now,
       al_zones = map (\<lambda>i. \<lparr>zx = real i * 220 + 200, zy = rand (rnd i) 120 (H - 120), zr = 60\<rparr>)
                    [0..<5]\<rparr>)"

text \<open>The body of the loop over the zones, for one zone: it moves the zone, adds its
  updraft to \<open>vy\<close> and counts a point when the ship is alive and close to the zone's
  centre. \<open>u\<close> is the random number drawn if the zone wraps around.\<close>

definition zone_step ::
  "real \<Rightarrow> real \<Rightarrow> real \<Rightarrow> real \<Rightarrow> bool \<Rightarrow> real \<Rightarrow> zone \<Rightarrow> real \<Rightarrow> real \<Rightarrow> zone \<times> real \<times> real" where
  "zone_step dt W H y alive u z vy score =
     (let x1 = zx z - 120 * dt;
          z1 = (if x1 < - 60 then z\<lparr>zx := x1 + 5 * 220, zy := rand u 120 (H - 120)\<rparr>
                else z\<lparr>zx := x1\<rparr>);
          dx = W * 0.35 - zx z1;
          dy = y - zy z1;
          d = sqrt (dx * dx + dy * dy);
          boost = clamp (1 - d / zr z1) 0 1
      in (z1, vy - 240 * boost * dt, if alive \<and> 0.8 < boost then score + 1 else score))"

text \<open>\<^verbatim>\<open>for (const z of zones) { ... }\<close>; \<open>rnd i\<close> is the random number for zone \<open>i\<close>.\<close>

fun zones_loop ::
  "real \<Rightarrow> real \<Rightarrow> real \<Rightarrow> real \<Rightarrow> bool \<Rightarrow> (nat \<Rightarrow> real) \<Rightarrow> nat \<Rightarrow> zone list \<Rightarrow> real \<Rightarrow> real
    \<Rightarrow> zone list \<times> real \<times> real" where
  "zones_loop dt W H y alive rnd i [] vy score = ([], vy, score)"
| "zones_loop dt W H y alive rnd i (z # zs) vy score =
     (case zone_step dt W H y alive (rnd i) z vy score of
        (z1, vy1, score1) \<Rightarrow>
          (case zones_loop dt W H y alive rnd (Suc i) zs vy1 score1 of
             (zs1, vy2, score2) \<Rightarrow> (z1 # zs1, vy2, score2)))"

text \<open>The physics of one frame: gravity and thrust, the move, the crash at the ceiling
  and at the ground. The result is \<open>(y, vy, alive)\<close>.\<close>

definition physics :: "real \<Rightarrow> AscendLight \<Rightarrow> real \<times> real \<times> bool" where
  "physics dt st =
     (let vy1 = (if \<not> al_alive st then al_vy st + 40 * dt
                 else if al_press st then al_vy st + 160 * dt - 360 * dt
                 else al_vy st + 160 * dt);
          y1 = al_y st + vy1 * dt;
          low = (y1 < 10);
          y2 = (if low then 10 else y1);
          vy2 = (if low then 0 else vy1);
          alive2 = (if low then False else al_alive st);
          high = (al_H st - 10 < y2)
      in (if high then al_H st - 10 else y2, if high then 0 else vy2,
          if high then False else alive2))"

text \<open>One run of \<^verbatim>\<open>loop\<close> at time \<open>tt\<close> (the drawing is left out).\<close>

definition GameAscendLight_loop :: "real \<Rightarrow> (nat \<Rightarrow> real) \<Rightarrow> AscendLight \<Rightarrow> AscendLight" where
  "GameAscendLight_loop tt rnd st =
     (let dt = frame_dt tt (al_last st) in
      case physics dt st of
        (y, vy, alive) \<Rightarrow>
          (case zones_loop dt (al_W st) (al_H st) y alive rnd 0 (al_zones st) vy (al_score st) of
             (zs, vy1, score1) \<Rightarrow>
               st\<lparr>al_last := tt, al_t := al_t st + dt, al_y := y, al_vy := vy1,
                  al_alive := alive, al_zones := zs, al_score := score1\<rparr>))"

datatype AscendEvent =
  AscendDown | AscendUp | AscendFrame real "nat \<Rightarrow> real" | AscendResize real real

fun GameAscendLight_step :: "AscendLight \<Rightarrow> AscendEvent \<Rightarrow> AscendLight" where
  "GameAscendLight_step st AscendDown = st\<lparr>al_press := True\<rparr>"
| "GameAscendLight_step st AscendUp = st\<lparr>al_press := False\<rparr>"
| "GameAscendLight_step st (AscendFrame tt rnd) = GameAscendLight_loop tt rnd st"
| "GameAscendLight_step st (AscendResize cw ch) = GameAscendLight_resize cw ch st"

subsection \<open>Game: Heartbeat Collective\<close>

datatype HeartPhase = PCal | PSync

datatype HeartCallback = HeartPulseOff | HeartTick real

text \<open>The quotient \<^verbatim>\<open>60000 / avg\<close>: dividing a positive number by zero gives
  \<^verbatim>\<open>Infinity\<close> in JavaScript and raises nothing (the mean of differences of time stamps
  is never negative zero). \<^verbatim>\<open>Math.min(b, Infinity)\<close> is \<open>b\<close>.\<close>

datatype jsnum = Num real | PosInfinity

definition js_div_pos :: "real \<Rightarrow> real \<Rightarrow> jsnum" where
  "js_div_pos x y = (if y = 0 then PosInfinity else Num (x / y))"

fun clampJ :: "jsnum \<Rightarrow> real \<Rightarrow> real \<Rightarrow> real" where
  "clampJ (Num v) lo hi = clamp v lo hi"
| "clampJ PosInfinity lo hi = max lo hi"

record Heartbeat =
  ht_phase :: HeartPhase
  ht_bpm :: real
  ht_taps :: "real list"
  ht_score :: real
  ht_pulse :: real
  ht_id :: "nat option"
  ht_pending :: "HeartCallback timer list"
  ht_next :: nat
  ht_mounted :: bool

definition GameHeartbeat_init :: Heartbeat where
  "GameHeartbeat_init =
     \<lparr>ht_phase = PCal, ht_bpm = 0, ht_taps = [], ht_score = 0, ht_pulse = 0, ht_id = None,
      ht_pending = [], ht_next = 1, ht_mounted = True\<rparr>"

text \<open>\<^verbatim>\<open>tick\<close> of the sync effect, run at time \<open>now\<close>: the variable \<^verbatim>\<open>id\<close> is assigned
  the id of the pulse timer and then the id of the next tick.\<close>

definition GameHeartbeat_tick :: "real \<Rightarrow> real \<Rightarrow> Heartbeat \<Rightarrow> Heartbeat" where
  "GameHeartbeat_tick now interval st =
     st\<lparr>ht_pulse := (if ht_mounted st then 1 else ht_pulse st),
        ht_pending := setTimeout now (HeartTick interval) interval (Suc (ht_next st))
                        (setTimeout now HeartPulseOff 180 (ht_next st) (ht_pending st)),
        ht_id := Some (Suc (ht_next st)),
        ht_next := Suc (Suc (ht_next st))\<rparr>"

text \<open>The body of the sync effect: outside the sync phase it returns at once, and without
  a cleanup.\<close>

definition GameHeartbeat_effect :: "real \<Rightarrow> Heartbeat \<Rightarrow> Heartbeat" where
  "GameHeartbeat_effect now st =
     (if ht_phase st \<noteq> PSync then st\<lparr>ht_id := None\<rparr>
      else GameHeartbeat_tick now (60000 / (if ht_bpm st = 0 then 60 else ht_bpm st)) st)"

text \<open>Its cleanup: \<^verbatim>\<open>clearTimeout(id)\<close>.\<close>

definition GameHeartbeat_cleanup :: "Heartbeat \<Rightarrow> Heartbeat" where
  "GameHeartbeat_cleanup st = st\<lparr>ht_pending := clearTimeout (ht_id st) (ht_pending st)\<rparr>"

definition GameHeartbeat_commit :: "real \<Rightarrow> Heartbeat \<Rightarrow> Heartbeat \<Rightarrow> Heartbeat" where
  "GameHeartbeat_commit now old new =
     (if ht_mounted new \<and> (ht_phase new \<noteq> ht_phase old \<or> ht_bpm new \<noteq> ht_bpm old)
      then GameHeartbeat_effect now (GameHeartbeat_cleanup new)
      else new)"

text \<open>The mean of the differences of neighbouring taps, as \<^verbatim>\<open>onTap\<close> computes it.\<close>

definition tap_intervals :: "real list \<Rightarrow> real list" where
  "tap_intervals taps = map (\<lambda>(t, p). t - p) (zip (tl taps) taps)"

definition mean_interval :: "real list \<Rightarrow> real" where
  "mean_interval taps =
     (let ds = tap_intervals taps in foldl (+) 0 ds / real (length ds))"

definition GameHeartbeat_onTap :: "real \<Rightarrow> Heartbeat \<Rightarrow> Heartbeat" where
  "GameHeartbeat_onTap t st =
     (if ht_phase st = PCal then
        (let taps = ht_taps st @ [t] in
         if 6 \<le> length taps then
           (let avg = mean_interval taps;
                candidate = clampJ (js_div_pos 60000 avg) 50 150
            in GameHeartbeat_commit t st
                 (st\<lparr>ht_bpm := candidate, ht_phase := PSync, ht_taps := []\<rparr>))
         else st\<lparr>ht_taps := taps\<rparr>)
      else
        (let interval = 60000 / (if ht_bpm st = 0 then 60 else ht_bpm st);
             d = js_rem t interval;
             err = min d (interval - d);
             acc = 1 - clamp (err / (interval / 2)) 0 1;
             pts = Math_round (acc * 10)
         in st\<lparr>ht_score := ht_score st + pts\<rparr>))"

fun GameHeartbeat_run :: "real \<Rightarrow> HeartCallback \<Rightarrow> Heartbeat \<Rightarrow> Heartbeat" where
  "GameHeartbeat_run now HeartPulseOff st =
     st\<lparr>ht_pulse := (if ht_mounted st then 0 else ht_pulse st)\<rparr>"
| "GameHeartbeat_run now (HeartTick interval) st = GameHeartbeat_tick now interval st"

definition GameHeartbeat_fire :: "Heartbeat \<Rightarrow> Heartbeat" where
  "GameHeartbeat_fire st =
     (case earliest (ht_pending st) of
        None \<Rightarrow> st
      | Some x \<Rightarrow>
          GameHeartbeat_run (due x) (cb x)
            (st\<lparr>ht_pending := filter (\<lambda>y. tid y \<noteq> tid x) (ht_pending st)\<rparr>))"

definition GameHeartbeat_unmount :: "Heartbeat \<Rightarrow> Heartbeat" where
  "GameHeartbeat_unmount st = (GameHeartbeat_cleanup st)\<lparr>ht_mounted := False\<rparr>"

datatype HeartEvent = HeartTap real | HeartFire | HeartExit

fun GameHeartbeat_step :: "Heartbeat \<Rightarrow> HeartEvent \<Rightarrow> Heartbeat" where
  "GameHeartbeat_step st (HeartTap t) = (if ht_mounted st then GameHeartbeat_onTap t st else st)"
| "GameHeartbeat_step st HeartFire = GameHeartbeat_fire st"
| "GameHeartbeat_step st HeartExit = (if ht_mounted st then GameHeartbeat_unmount st else st)"

section \<open>Properties\<close>

subsection \<open>The accuracy expression\<close>

lemma clamp01: "0 \<le> clamp v 0 1 \<and> clamp v 0 1 \<le> 1"
  by (simp add: clamp_def)

lemma accuracy_range: "0 \<le> accuracyFromError e t \<and> accuracyFromError e t \<le> 1"
  using clamp01 [of "e / t"] by (simp add: accuracyFromError_def)

lemma accuracy_antimono:
  assumes "0 < t" and "e \<le> e'"
  shows "accuracyFromError e' t \<le> accuracyFromError e t"
proof -
  from assms have "e / t \<le> e' / t"
    by (simp add: divide_right_mono)
  then show ?thesis
    by (simp add: accuracyFromError_def clamp_def)
qed

lemma accuracy_zero_error: "accuracyFromError 0 t = 1"
  by (simp add: accuracyFromError_def clamp_def)

lemma accuracy_beyond_tolerance:
  assumes "0 < t" and "t \<le> e"
  shows "accuracyFromError e t = 0"
proof -
  from assms have "1 \<le> e / t" by simp
  then show ?thesis
    by (simp add: accuracyFromError_def clamp_def)
qed

text \<open>
  Claim C5. For every error \<open>err \<ge> 0\<close> and tolerance \<open>tolerance > 0\<close>, the accuracy
  \<open>1 - clamp (err / tolerance) 0 1\<close> lies in \<open>[0, 1]\<close>, does not increase when the error
  grows, is 1 at error 0 and is 0 once the error reaches the tolerance.
\<close>

theorem accuracyFromError_properties:
  assumes "0 < tolerance" and "0 \<le> err"
  shows "0 \<le> accuracyFromError err tolerance \<and> accuracyFromError err tolerance \<le> 1
    \<and> (\<forall>err'. err \<le> err' \<longrightarrow> accuracyFromError err' tolerance \<le> accuracyFromError err tolerance)
    \<and> accuracyFromError 0 tolerance = 1
    \<and> (tolerance \<le> err \<longrightarrow> accuracyFromError err tolerance = 0)"
  using assms accuracy_range accuracy_antimono accuracy_zero_error accuracy_beyond_tolerance
  by blast


text \<open>An error of 200 ms against a tolerance of 800 ms gives accuracy 3/4, a larger error
  gives no more, and an error of 900 ms gives 0.\<close>

theorem accuracyFromError_properties_witness:
  "(0::real) < 800 \<and> (0::real) \<le> 200 \<and> accuracyFromError 200 800 = 3 / 4
    \<and> accuracyFromError 1000 800 \<le> accuracyFromError 200 800
    \<and> (0::real) \<le> 900 \<and> accuracyFromError 900 800 = 0"
proof -
  have h1: "(0::real) < 800" and h2: "(0::real) \<le> 200" and h3: "(0::real) \<le> 900" by simp_all
  have "accuracyFromError 1000 800 \<le> accuracyFromError 200 800"
    using accuracyFromError_properties [OF h1 h2] by simp
  moreover have "accuracyFromError 900 800 = 0"
    using accuracyFromError_properties [OF h1 h3] by simp
  moreover have "accuracyFromError 200 800 = 3 / 4"
    by (simp add: accuracyFromError_def clamp_def)
  ultimately show ?thesis by simp
qed

subsection \<open>Spending tokens\<close>

text \<open>
  Claim C1 as stated: a spend with an insufficient balance is refused and leaves the state
  unchanged. With 5 tokens, \<open>spend 20\<close> is not refused: it sets the balance to 0.
\<close>

theorem spend_refused_counterexample:
  "tokens \<lparr>tokens = 5, palette = ''aurora'', best = (\<lambda>k. 0)\<rparr> < 20
   \<and> spend 20 \<lparr>tokens = 5, palette = ''aurora'', best = (\<lambda>k. 0)\<rparr>
       \<noteq> \<lparr>tokens = 5, palette = ''aurora'', best = (\<lambda>k. 0)\<rparr>
   \<and> tokens (spend 20 \<lparr>tokens = 5, palette = ''aurora'', best = (\<lambda>k. 0)\<rparr>) = 0"
  by (simp add: spend_def)

text \<open>
  Claim C1, amended. \<open>spend n\<close> never leaves fewer than 0 tokens: the new balance is
  \<open>max 0 (tokens - n)\<close>, and the palette and the best scores are unchanged. With an
  insufficient balance the spend is not refused but clamps the balance to 0; with a
  sufficient one it subtracts \<open>n\<close>. The refusal is made by the caller: the shop's Buy
  button is disabled below 20 tokens, and then the state is unchanged.
\<close>

theorem spend_clamps_at_zero:
  "0 \<le> tokens (spend n s)
   \<and> tokens (spend n s) = max 0 (tokens s - n)
   \<and> palette (spend n s) = palette s \<and> best (spend n s) = best s
   \<and> (tokens s < n \<longrightarrow> tokens (spend n s) = 0)
   \<and> (n \<le> tokens s \<longrightarrow> tokens (spend n s) = tokens s - n)
   \<and> (tokens s < 20 \<longrightarrow> buy_click p s = s)"
  by (simp add: spend_def buy_click_def)


text \<open>With 5 tokens a spend of 20 leaves 0, with 50 tokens it leaves 30, and the Buy button
  does nothing with 5 tokens.\<close>

theorem spend_clamps_at_zero_witness:
  "tokens (spend 20 \<lparr>tokens = 5, palette = ''aurora'', best = (\<lambda>k. 0)\<rparr>) = 0
   \<and> tokens (spend 20 \<lparr>tokens = 50, palette = ''aurora'', best = (\<lambda>k. 0)\<rparr>) = 30
   \<and> buy_click (PALETTES ! 1) \<lparr>tokens = 5, palette = ''aurora'', best = (\<lambda>k. 0)\<rparr>
       = \<lparr>tokens = 5, palette = ''aurora'', best = (\<lambda>k. 0)\<rparr>"
  using spend_clamps_at_zero [of 20 "\<lparr>tokens = 5, palette = ''aurora'', best = (\<lambda>k. 0)\<rparr>" "PALETTES ! 1"]
    spend_clamps_at_zero [of 20 "\<lparr>tokens = 50, palette = ''aurora'', best = (\<lambda>k. 0)\<rparr>" "PALETTES ! 1"]
  by simp

subsection \<open>Best scores\<close>

lemma recordBest_best: "best (recordBest k s x) = (best s)(k := max (best s k) x)"
  by (simp add: recordBest_def)

lemma recordBest_noop: "x \<le> best s k \<Longrightarrow> recordBest k s x = s"
  by (simp add: recordBest_def max_absorb1)

lemma recordBest_all_noop: "\<forall>x\<in>set xs. x \<le> best s k \<Longrightarrow> foldl (recordBest k) s xs = s"
  by (induction xs) (simp_all add: recordBest_noop)

lemma recordBest_descending:
  "\<forall>y\<in>set xs. y \<le> x \<Longrightarrow> foldl (recordBest k) (recordBest k s x) xs = recordBest k s x"
  by (rule recordBest_all_noop) (auto simp: recordBest_best)

text \<open>
  Claim C3. Settling a score \<open>x\<close> for game \<open>k\<close> is a ratchet: the stored best of \<open>k\<close>
  changes only if \<open>x\<close> is greater, and then becomes \<open>x\<close>; nothing else in the state
  changes. A score that is not greater leaves the state as it is, settling the same score
  twice is settling it once, and neither a run of scores none of which exceeds the stored
  best, nor a run of scores none of which exceeds a score already settled, changes the
  state.
\<close>

theorem recordBest_ratchet:
  "best (recordBest k s x) k = (if best s k < x then x else best s k)
   \<and> (\<forall>j. j \<noteq> k \<longrightarrow> best (recordBest k s x) j = best s j)
   \<and> tokens (recordBest k s x) = tokens s \<and> palette (recordBest k s x) = palette s
   \<and> (x \<le> best s k \<longrightarrow> recordBest k s x = s)
   \<and> (best s k < x \<longrightarrow> best (recordBest k s x) k = x)
   \<and> recordBest k (recordBest k s x) x = recordBest k s x
   \<and> ((\<forall>y\<in>set xs. y \<le> best s k) \<longrightarrow> foldl (recordBest k) s xs = s)
   \<and> ((\<forall>y\<in>set xs. y \<le> x) \<longrightarrow> foldl (recordBest k) (recordBest k s x) xs = recordBest k s x)
   \<and> onExit x (s, VGame k) = (recordBest k s x, VMenu)"
proof -
  have "recordBest k (recordBest k s x) x = recordBest k s x"
    by (rule recordBest_noop) (simp add: recordBest_best)
  moreover have "tokens (recordBest k s x) = tokens s \<and> palette (recordBest k s x) = palette s"
    by (simp add: recordBest_def)
  moreover have "onExit x (s, VGame k) = (recordBest k s x, VMenu)"
    by (simp add: recordBest_def)
  ultimately show ?thesis
    using recordBest_noop [of x s k] recordBest_all_noop [of xs s k]
      recordBest_descending [of xs x k s]
    by (simp add: recordBest_best)
qed

text \<open>With a stored best of 40 for PulseLink, scores 30, 40 and 12 change nothing, and a
  score of 55 becomes the stored best.\<close>

theorem recordBest_ratchet_witness:
  "foldl (recordBest KPulse) \<lparr>tokens = 0, palette = ''aurora'', best = (\<lambda>k. 40)\<rparr> [30, 40, 12]
     = \<lparr>tokens = 0, palette = ''aurora'', best = (\<lambda>k. 40)\<rparr>
   \<and> best (recordBest KPulse \<lparr>tokens = 0, palette = ''aurora'', best = (\<lambda>k. 40)\<rparr> 55) KPulse = 55
   \<and> best (recordBest KPulse \<lparr>tokens = 0, palette = ''aurora'', best = (\<lambda>k. 40)\<rparr> 55) KHeat = 40"
  using recordBest_ratchet [of KPulse "\<lparr>tokens = 0, palette = ''aurora'', best = (\<lambda>k. 40)\<rparr>" 55 "[30, 40, 12]"]
  by simp

subsection \<open>Loading the persisted state\<close>

text \<open>
  Claim C6. Whatever the storage holds, \<open>loadState\<close> returns a value and never throws:
  when reading the storage throws, when the key is absent, when the text is empty and when
  the text does not parse, the result is the default: 0 tokens, the key of the first
  palette (aurora), and a best score of 0 for each of the seven game keys. A text that
  parses is returned as parsed.
\<close>

theorem loadState_total:
  "(\<exists>v. loadState getItem parse = Inr v)
   \<and> loadState (Inl e) parse = Inr defaultState
   \<and> loadState (Inr None) parse = Inr defaultState
   \<and> loadState (Inr (Some [])) parse = Inr defaultState
   \<and> (parse txt = Inl e' \<longrightarrow> loadState (Inr (Some txt)) parse = Inr defaultState)
   \<and> (txt \<noteq> [] \<and> parse txt = Inr v' \<longrightarrow> loadState (Inr (Some txt)) parse = Inr v')
   \<and> defaultState =
       JObj [(''tokens'', JNum 0), (''palette'', JStr ''aurora''),
             (''best'', JObj [(''pulse'', JNum 0), (''heat'', JNum 0), (''tension'', JNum 0),
                              (''echo'', JNum 0), (''pressure'', JNum 0), (''ascend'', JNum 0),
                              (''heart'', JNum 0)])]"
  by (simp add: loadState_def loadState_try_def defaultState_def PALETTES_def
      split: sum.splits option.splits)

text \<open>A stored text that is cut off does not parse, and the default is loaded; a stored
  \<^verbatim>\<open>null\<close> parses, and is loaded as it is.\<close>

theorem loadState_total_witness:
  "loadState (Inr (Some ''{tokens:''))
       (\<lambda>t. if t = ''null'' then Inr JNull else Inl SyntaxError) = Inr defaultState
   \<and> loadState (Inr (Some ''null''))
       (\<lambda>t. if t = ''null'' then Inr JNull else Inl SyntaxError) = Inr JNull"
  using loadState_total [of _ "\<lambda>t. if t = ''null'' then Inr JNull else Inl SyntaxError"
      _ "''{tokens:''" SyntaxError JNull]
    loadState_total [of _ "\<lambda>t. if t = ''null'' then Inr JNull else Inl SyntaxError"
      _ "''null''" _ JNull]
  by simp

subsection \<open>Settlement on exit\<close>

text \<open>
  Claim C10. The Exit button of every game calls \<open>award\<close> once, with the score divided by
  5 (PulseLink, HeatBloom), 6 (TensionLine, EchoOrb, PressureCraft, Heartbeat) or 8
  (AscendLight) and rounded down, and then \<open>onExit\<close> once, with the score; and \<open>award\<close>
  adds \<open>max 0 n\<close> tokens, so the balance never decreases.
\<close>

theorem exit_awards_once:
  "GameFrame_exit KPulse score = [Award (of_int \<lfloor>score / 5\<rfloor>), OnExit score]
   \<and> GameFrame_exit KHeat score = [Award (of_int \<lfloor>score / 5\<rfloor>), OnExit score]
   \<and> GameFrame_exit KTension score = [Award (of_int \<lfloor>score / 6\<rfloor>), OnExit score]
   \<and> GameFrame_exit KEcho score = [Award (of_int \<lfloor>score / 6\<rfloor>), OnExit score]
   \<and> GameFrame_exit KPressure score = [Award (of_int \<lfloor>score / 6\<rfloor>), OnExit score]
   \<and> GameFrame_exit KHeart score = [Award (of_int \<lfloor>score / 6\<rfloor>), OnExit score]
   \<and> GameFrame_exit KAscend score = [Award (of_int \<lfloor>score / 8\<rfloor>), OnExit score]
   \<and> tokens (award n s) = tokens s + max 0 n
   \<and> tokens s \<le> tokens (award n s)
   \<and> award (- \<bar>n\<bar>) s = s
   \<and> palette (award n s) = palette s \<and> best (award n s) = best s"
  by (simp add: GamePulseLink_exit_def GameHeatBloom_exit_def GameTensionLine_exit_def
      GameEchoOrb_exit_def GamePressureCraft_exit_def GameHeartbeat_exit_def
      GameAscendLight_exit_def Math_floor_def award_def)

subsection \<open>Scores\<close>

lemma Math_round_int: "Math_round x \<in> \<int>"
  by (simp add: Math_round_def)

lemma Math_round_nonneg: "0 \<le> x \<Longrightarrow> 0 \<le> Math_round x"
  by (simp add: Math_round_def)

lemma points_ok: "Math_round ((1 - clamp v 0 1) * m) \<in> \<int> \<and> (0 \<le> m \<longrightarrow> 0 \<le> Math_round ((1 - clamp v 0 1) * m))"
  using clamp01 [of v] by (simp add: Math_round_int Math_round_nonneg)

lemma add_points: "s \<in> \<int> \<and> 0 \<le> s \<Longrightarrow> p \<in> \<int> \<and> 0 \<le> p \<Longrightarrow> s + p \<in> \<int> \<and> 0 \<le> s + (p::real)"
  by simp

lemma floor_penalty: "s \<in> \<int> \<Longrightarrow> n \<in> \<int> \<Longrightarrow> max 0 (s - n) \<in> \<int> \<and> 0 \<le> max 0 (s - (n::real))"
  by (simp add: max_def)

lemma pl_tick_score: "pl_score (GamePulseLink_tick now st) = pl_score st"
  by (simp add: GamePulseLink_tick_def Let_def)

lemma pl_fire_score: "pl_score (GamePulseLink_fire st) = pl_score st"
  by (simp add: GamePulseLink_fire_def pl_tick_score split: option.splits)

lemma pl_unmount_score: "pl_score (GamePulseLink_unmount st) = pl_score st"
  by (simp add: GamePulseLink_unmount_def GamePulseLink_cleanup_def split: option.splits)

lemma pl_onTap_score:
  assumes "pl_score st \<in> \<int> \<and> 0 \<le> pl_score st"
  shows "pl_score (GamePulseLink_onTap t st) \<in> \<int> \<and> 0 \<le> pl_score (GamePulseLink_onTap t st)"
  using assms points_ok [of _ 10]
  by (simp add: GamePulseLink_onTap_def Let_def)

lemma pl_step_score:
  assumes "pl_score st \<in> \<int> \<and> 0 \<le> pl_score st"
  shows "pl_score (GamePulseLink_step st e) \<in> \<int> \<and> 0 \<le> pl_score (GamePulseLink_step st e)"
  using assms pl_onTap_score [OF assms]
  by (cases e) (simp_all add: pl_fire_score pl_unmount_score)

lemma pl_run_score:
  "pl_score st \<in> \<int> \<and> 0 \<le> pl_score st \<Longrightarrow>
   pl_score (foldl GamePulseLink_step st evs) \<in> \<int> \<and> 0 \<le> pl_score (foldl GamePulseLink_step st evs)"
  by (induction evs arbitrary: st) (simp_all add: pl_step_score)


lemma hb_loop_score:
  assumes "hb_score st \<in> \<int> \<and> 0 \<le> hb_score st"
  shows "hb_score (GameHeatBloom_loop t u1 u2 u3 u4 st) \<in> \<int>
    \<and> 0 \<le> hb_score (GameHeatBloom_loop t u1 u2 u3 u4 st)"
  using assms by (simp add: GameHeatBloom_loop_def Let_def max_def)

lemma hb_step_score:
  assumes "hb_score st \<in> \<int> \<and> 0 \<le> hb_score st"
  shows "hb_score (GameHeatBloom_step st e) \<in> \<int> \<and> 0 \<le> hb_score (GameHeatBloom_step st e)"
  using assms hb_loop_score [OF assms] by (cases e) simp_all

lemma hb_run_score:
  "hb_score st \<in> \<int> \<and> 0 \<le> hb_score st \<Longrightarrow>
   hb_score (foldl GameHeatBloom_step st evs) \<in> \<int> \<and> 0 \<le> hb_score (foldl GameHeatBloom_step st evs)"
  by (induction evs arbitrary: st) (simp_all add: hb_step_score)

lemma tl_step_score:
  assumes "tl_score st \<in> \<int> \<and> 0 \<le> tl_score st"
  shows "tl_score (GameTensionLine_step st e) \<in> \<int> \<and> 0 \<le> tl_score (GameTensionLine_step st e)"
  using assms Math_round_int [of "12 - \<bar>tl_len st - tl_target st\<bar> * 40"]
  by (cases e)
    (simp_all add: GameTensionLine_onDown_def GameTensionLine_onUp_def GameTensionLine_loop_def
      Let_def max_def)

lemma tl_run_score:
  "tl_score st \<in> \<int> \<and> 0 \<le> tl_score st \<Longrightarrow>
   tl_score (foldl GameTensionLine_step st evs) \<in> \<int> \<and> 0 \<le> tl_score (foldl GameTensionLine_step st evs)"
  by (induction evs arbitrary: st) (simp_all add: tl_step_score)

lemma pc_step_score:
  assumes "pc_score st \<in> \<int> \<and> 0 \<le> pc_score st"
  shows "pc_score (GamePressureCraft_step st e) \<in> \<int> \<and> 0 \<le> pc_score (GamePressureCraft_step st e)"
  using assms
  by (cases e)
    (simp_all add: GamePressureCraft_release_def GamePressureCraft_loop_def Let_def max_def)

lemma pc_run_score:
  "pc_score st \<in> \<int> \<and> 0 \<le> pc_score st \<Longrightarrow>
   pc_score (foldl GamePressureCraft_step st evs) \<in> \<int> \<and> 0 \<le> pc_score (foldl GamePressureCraft_step st evs)"
  by (induction evs arbitrary: st) (simp_all add: pc_step_score)

lemma eo_effect_score: "eo_score (GameEchoOrb_effect now st) = eo_score st"
  by (simp add: GameEchoOrb_effect_def)

lemma eo_commit_score: "eo_score (GameEchoOrb_commit now old new) = eo_score new"
  by (simp add: GameEchoOrb_commit_def eo_effect_score GameEchoOrb_cleanup_def)

lemma eo_run_cb_score: "eo_score (GameEchoOrb_run u now c st) = eo_score st"
  by (cases c) (simp_all add: eo_commit_score)

lemma eo_fire_score: "eo_score (GameEchoOrb_fire u st) = eo_score st"
  by (simp add: GameEchoOrb_fire_def eo_run_cb_score split: option.splits)

lemma eo_unmount_score: "eo_score (GameEchoOrb_unmount st) = eo_score st"
  by (simp add: GameEchoOrb_unmount_def GameEchoOrb_cleanup_def)

lemma eo_onTap_score:
  assumes "eo_score st \<in> \<int> \<and> 0 \<le> eo_score st"
  shows "eo_score (GameEchoOrb_onTap t st) \<in> \<int> \<and> 0 \<le> eo_score (GameEchoOrb_onTap t st)"
  using assms points_ok [of _ 12]
  by (simp add: GameEchoOrb_onTap_def Let_def eo_commit_score)

lemma eo_step_score:
  assumes "eo_score st \<in> \<int> \<and> 0 \<le> eo_score st"
  shows "eo_score (GameEchoOrb_step st e) \<in> \<int> \<and> 0 \<le> eo_score (GameEchoOrb_step st e)"
  using assms eo_onTap_score [OF assms]
  by (cases e) (simp_all add: eo_fire_score eo_unmount_score)

lemma eo_run_score:
  "eo_score st \<in> \<int> \<and> 0 \<le> eo_score st \<Longrightarrow>
   eo_score (foldl GameEchoOrb_step st evs) \<in> \<int> \<and> 0 \<le> eo_score (foldl GameEchoOrb_step st evs)"
  by (induction evs arbitrary: st) (simp_all add: eo_step_score)

lemma zone_step_score:
  assumes "score \<in> \<int> \<and> 0 \<le> score" and "zone_step dt W H y alive u z vy score = (z1, vy1, score1)"
  shows "score1 \<in> \<int> \<and> 0 \<le> score1"
  using assms by (auto simp: zone_step_def Let_def split: if_splits)

lemma zones_loop_score:
  "score \<in> \<int> \<and> 0 \<le> score \<Longrightarrow> zones_loop dt W H y alive rnd i zs vy score = (zs1, vy1, score1) \<Longrightarrow>
   score1 \<in> \<int> \<and> 0 \<le> score1"
proof (induction zs arbitrary: i vy score zs1 vy1 score1)
  case Nil
  then show ?case by simp
next
  case (Cons z zs)
  obtain z' vy' score' where step: "zone_step dt W H y alive (rnd i) z vy score = (z', vy', score')"
    by (metis prod_cases3)
  obtain zs'' vy'' score'' where
    rest: "zones_loop dt W H y alive rnd (Suc i) zs vy' score' = (zs'', vy'', score'')"
    by (metis prod_cases3)
  have "score' \<in> \<int> \<and> 0 \<le> score'"
    using zone_step_score [OF Cons.prems(1) step] .
  then have "score'' \<in> \<int> \<and> 0 \<le> score''"
    using Cons.IH rest by blast
  moreover have "score1 = score''"
    using Cons.prems(2) step rest by simp
  ultimately show ?case by simp
qed

lemma al_loop_score:
  assumes "al_score st \<in> \<int> \<and> 0 \<le> al_score st"
  shows "al_score (GameAscendLight_loop tt rnd st) \<in> \<int>
    \<and> 0 \<le> al_score (GameAscendLight_loop tt rnd st)"
proof -
  obtain y vy alive where p: "physics (frame_dt tt (al_last st)) st = (y, vy, alive)"
    by (metis prod_cases3)
  obtain zs vy1 score1 where
    z: "zones_loop (frame_dt tt (al_last st)) (al_W st) (al_H st) y alive rnd 0 (al_zones st) vy
          (al_score st) = (zs, vy1, score1)"
    by (metis prod_cases3)
  have "al_score (GameAscendLight_loop tt rnd st) = score1"
    by (simp add: GameAscendLight_loop_def Let_def p z)
  then show ?thesis
    using zones_loop_score [OF assms z] by simp
qed

lemma al_step_score:
  assumes "al_score st \<in> \<int> \<and> 0 \<le> al_score st"
  shows "al_score (GameAscendLight_step st e) \<in> \<int> \<and> 0 \<le> al_score (GameAscendLight_step st e)"
  using assms al_loop_score [OF assms]
  by (cases e) (simp_all add: GameAscendLight_resize_def)

lemma al_run_score:
  "al_score st \<in> \<int> \<and> 0 \<le> al_score st \<Longrightarrow>
   al_score (foldl GameAscendLight_step st evs) \<in> \<int> \<and> 0 \<le> al_score (foldl GameAscendLight_step st evs)"
  by (induction evs arbitrary: st) (simp_all add: al_step_score)

lemma ht_tick_score: "ht_score (GameHeartbeat_tick now i st) = ht_score st"
  by (simp add: GameHeartbeat_tick_def)

lemma ht_commit_score: "ht_score (GameHeartbeat_commit now old new) = ht_score new"
  by (simp add: GameHeartbeat_commit_def GameHeartbeat_effect_def ht_tick_score
      GameHeartbeat_cleanup_def)

lemma ht_fire_score: "ht_score (GameHeartbeat_fire st) = ht_score st"
proof (cases "earliest (ht_pending st)")
  case None
  then show ?thesis by (simp add: GameHeartbeat_fire_def)
next
  case (Some x)
  then show ?thesis
    by (cases "cb x") (simp_all add: GameHeartbeat_fire_def ht_tick_score)
qed

lemma ht_unmount_score: "ht_score (GameHeartbeat_unmount st) = ht_score st"
  by (simp add: GameHeartbeat_unmount_def GameHeartbeat_cleanup_def)

lemma ht_onTap_score:
  assumes "ht_score st \<in> \<int> \<and> 0 \<le> ht_score st"
  shows "ht_score (GameHeartbeat_onTap t st) \<in> \<int> \<and> 0 \<le> ht_score (GameHeartbeat_onTap t st)"
  using assms points_ok [of _ 10]
  by (simp add: GameHeartbeat_onTap_def Let_def ht_commit_score)

lemma ht_step_score:
  assumes "ht_score st \<in> \<int> \<and> 0 \<le> ht_score st"
  shows "ht_score (GameHeartbeat_step st e) \<in> \<int> \<and> 0 \<le> ht_score (GameHeartbeat_step st e)"
  using assms ht_onTap_score [OF assms]
  by (cases e) (simp_all add: ht_fire_score ht_unmount_score)

lemma ht_run_score:
  "ht_score st \<in> \<int> \<and> 0 \<le> ht_score st \<Longrightarrow>
   ht_score (foldl GameHeartbeat_step st evs) \<in> \<int> \<and> 0 \<le> ht_score (foldl GameHeartbeat_step st evs)"
  by (induction evs arbitrary: st) (simp_all add: ht_step_score)

text \<open>
  Claim C4. In each of the seven games, after any sequence of events (taps, presses and
  releases, frames, timers firing, leaving) the score is an integer and is at least 0.
  Points won are rounded and never negative; the penalty of HeatBloom (3 points) and the
  penalty of PressureCraft (4 points) stop at 0.
\<close>

theorem score_never_negative:
  "pl_score (foldl GamePulseLink_step (GamePulseLink_start now u GamePulseLink_init) pes) \<in> \<int>
   \<and> 0 \<le> pl_score (foldl GamePulseLink_step (GamePulseLink_start now u GamePulseLink_init) pes)
   \<and> hb_score (foldl GameHeatBloom_step (GameHeatBloom_init now) hes) \<in> \<int>
   \<and> 0 \<le> hb_score (foldl GameHeatBloom_step (GameHeatBloom_init now) hes)
   \<and> tl_score (foldl GameTensionLine_step (GameTensionLine_init now u) tes) \<in> \<int>
   \<and> 0 \<le> tl_score (foldl GameTensionLine_step (GameTensionLine_init now u) tes)
   \<and> eo_score (foldl GameEchoOrb_step (GameEchoOrb_mount now) ees) \<in> \<int>
   \<and> 0 \<le> eo_score (foldl GameEchoOrb_step (GameEchoOrb_mount now) ees)
   \<and> pc_score (foldl GamePressureCraft_step (GamePressureCraft_init now) ces) \<in> \<int>
   \<and> 0 \<le> pc_score (foldl GamePressureCraft_step (GamePressureCraft_init now) ces)
   \<and> al_score (foldl GameAscendLight_step (GameAscendLight_init now cw ch rnd) aes) \<in> \<int>
   \<and> 0 \<le> al_score (foldl GameAscendLight_step (GameAscendLight_init now cw ch rnd) aes)
   \<and> ht_score (foldl GameHeartbeat_step GameHeartbeat_init bes) \<in> \<int>
   \<and> 0 \<le> ht_score (foldl GameHeartbeat_step GameHeartbeat_init bes)
   \<and> hb_score (GameHeatBloom_loop t u1 u2 u3 u4 hst)
        \<in> {hb_score hst, hb_score hst + 10, max 0 (hb_score hst - 3), max 0 (hb_score hst + 10 - 3)}
   \<and> pc_score (GamePressureCraft_release cst) =
        (if pc_a cst \<le> pc_fill cst \<and> pc_fill cst \<le> pc_b cst then pc_score cst + 12
         else max 0 (pc_score cst - 4))"
proof -
  have "pl_score (GamePulseLink_start now u GamePulseLink_init) = 0"
    by (simp add: GamePulseLink_start_def pl_tick_score GamePulseLink_init_def)
  then have p: "pl_score (GamePulseLink_start now u GamePulseLink_init) \<in> \<int>
      \<and> 0 \<le> pl_score (GamePulseLink_start now u GamePulseLink_init)"
    by simp
  have h: "hb_score (GameHeatBloom_init now) \<in> \<int> \<and> 0 \<le> hb_score (GameHeatBloom_init now)"
    by (simp add: GameHeatBloom_init_def)
  have t: "tl_score (GameTensionLine_init now u) \<in> \<int> \<and> 0 \<le> tl_score (GameTensionLine_init now u)"
    by (simp add: GameTensionLine_init_def)
  have "eo_score (GameEchoOrb_mount now) = 0"
    by (simp add: GameEchoOrb_mount_def eo_effect_score GameEchoOrb_init_def)
  then have e: "eo_score (GameEchoOrb_mount now) \<in> \<int> \<and> 0 \<le> eo_score (GameEchoOrb_mount now)"
    by simp
  have c: "pc_score (GamePressureCraft_init now) \<in> \<int> \<and> 0 \<le> pc_score (GamePressureCraft_init now)"
    by (simp add: GamePressureCraft_init_def)
  have a: "al_score (GameAscendLight_init now cw ch rnd) \<in> \<int>
      \<and> 0 \<le> al_score (GameAscendLight_init now cw ch rnd)"
    by (simp add: GameAscendLight_init_def Let_def)
  have b: "ht_score GameHeartbeat_init \<in> \<int> \<and> 0 \<le> ht_score GameHeartbeat_init"
    by (simp add: GameHeartbeat_init_def)
  have hp: "hb_score (GameHeatBloom_loop t u1 u2 u3 u4 hst)
        \<in> {hb_score hst, hb_score hst + 10, max 0 (hb_score hst - 3), max 0 (hb_score hst + 10 - 3)}"
    by (simp add: GameHeatBloom_loop_def Let_def)
  have cp: "pc_score (GamePressureCraft_release cst) =
        (if pc_a cst \<le> pc_fill cst \<and> pc_fill cst \<le> pc_b cst then pc_score cst + 12
         else max 0 (pc_score cst - 4))"
    by (simp add: GamePressureCraft_release_def)
  show ?thesis
    using hp cp pl_run_score [OF p, of pes] hb_run_score [OF h, of hes] tl_run_score [OF t, of tes]
      eo_run_score [OF e, of ees] pc_run_score [OF c, of ces] al_run_score [OF a, of aes]
      ht_run_score [OF b, of bes]
    by blast
qed

text \<open>A release in PressureCraft before anything was forged costs 4 points of a score of
  0, which stays 0; a release in TensionLine on the target wins 12 points.\<close>

theorem score_never_negative_witness:
  "pc_score (foldl GamePressureCraft_step (GamePressureCraft_init 0) [PressureRelease]) = 0
   \<and> 0 \<le> pc_score (foldl GamePressureCraft_step (GamePressureCraft_init 0) [PressureRelease])
   \<and> tl_score (foldl GameTensionLine_step (GameTensionLine_init 0 (1 / 9)) [TensionUp 0]) = 12
   \<and> 0 \<le> tl_score (foldl GameTensionLine_step (GameTensionLine_init 0 (1 / 9)) [TensionUp 0])"
proof -
  have "pc_score (foldl GamePressureCraft_step (GamePressureCraft_init 0) [PressureRelease]) = 0"
    by (simp add: GamePressureCraft_init_def GamePressureCraft_release_def)
  moreover have "tl_score (foldl GameTensionLine_step (GameTensionLine_init 0 (1 / 9)) [TensionUp 0]) = 12"
    by (simp add: GameTensionLine_init_def GameTensionLine_onUp_def rand_def Math_round_def)
  ultimately show ?thesis
    using score_never_negative [of 0 "1 / 9" "[]" "[]" "[TensionUp 0]" "[]" "[PressureRelease]"]
    by simp
qed

subsection \<open>Frame gaps\<close>

lemma clamp_bounds: "lo \<le> hi \<Longrightarrow> lo \<le> clamp v lo hi \<and> clamp v lo hi \<le> hi"
  by (simp add: clamp_def)

lemma hb_loop_bounds:
  "hb_viewHeat (GameHeatBloom_loop t u1 u2 u3 u4 st) =
      clamp (if hb_holding st then hb_heat st + 0.55 * ((t - hb_last st) / 1000)
             else hb_heat st - 0.35 * ((t - hb_last st) / 1000)) 0 1
   \<and> 0 \<le> hb_heat (GameHeatBloom_loop t u1 u2 u3 u4 st)
   \<and> hb_heat (GameHeatBloom_loop t u1 u2 u3 u4 st) \<le> 1
   \<and> 0 \<le> hb_bloom (GameHeatBloom_loop t u1 u2 u3 u4 st)
   \<and> hb_bloom (GameHeatBloom_loop t u1 u2 u3 u4 st) \<le> 1"
  using clamp01
  by (simp add: GameHeatBloom_loop_def Let_def frame_dt_def)

lemma tl_loop_bounds:
  "tl_len (GameTensionLine_loop t st) =
      (if tl_pulling st then clamp (tl_len st + (t - tl_last st) / 1000 * 0.35) 0 1
       else clamp (tl_len st - (t - tl_last st) / 1000 * 0.25) 0 1)
   \<and> 0 \<le> tl_len (GameTensionLine_loop t st) \<and> tl_len (GameTensionLine_loop t st) \<le> 1"
  using clamp01
  by (simp add: GameTensionLine_loop_def Let_def frame_dt_def)

lemma pc_loop_bounds:
  "pc_fill (GamePressureCraft_loop t st) =
      clamp (pc_fill st + (if pc_holding st then 1 else - 1) * ((t - pc_last st) / 1000) * 0.8) 0 1
   \<and> 0 \<le> pc_fill (GamePressureCraft_loop t st) \<and> pc_fill (GamePressureCraft_loop t st) \<le> 1
   \<and> 0 \<le> pc_a (GamePressureCraft_loop t st) \<and> pc_b (GamePressureCraft_loop t st) \<le> 1"
  using clamp01 clamp_bounds [of 0 "0.85"] clamp_bounds [of "0.15" 1]
  by (simp add: GamePressureCraft_loop_def Let_def frame_dt_def)

lemma al_loop_bounds:
  "al_y (GameAscendLight_loop tt rnd st) \<le> al_H st - 10
   \<and> (20 \<le> al_H st \<longrightarrow> 10 \<le> al_y (GameAscendLight_loop tt rnd st))"
proof -
  obtain y vy alive where p: "physics (frame_dt tt (al_last st)) st = (y, vy, alive)"
    by (metis prod_cases3)
  obtain zs vy1 score1 where
    z: "zones_loop (frame_dt tt (al_last st)) (al_W st) (al_H st) y alive rnd 0 (al_zones st) vy
          (al_score st) = (zs, vy1, score1)"
    by (metis prod_cases3)
  have "al_y (GameAscendLight_loop tt rnd st) = y"
    by (simp add: GameAscendLight_loop_def Let_def p z)
  moreover have "y \<le> al_H st - 10 \<and> (20 \<le> al_H st \<longrightarrow> 10 \<le> y)"
    using p by (auto simp: physics_def Let_def split: if_splits)
  ultimately show ?thesis by simp
qed

lemma hb_loop_bloom:
  "hb_bloom (GameHeatBloom_loop t u1 u2 u3 u4 st) =
     (if 0.995 \<le> clamp (if hb_holding st then hb_heat st + 0.55 * ((t - hb_last st) / 1000)
                        else hb_heat st - 0.35 * ((t - hb_last st) / 1000)) 0 1
      then 0
      else if hb_min st \<le> clamp (if hb_holding st then hb_heat st + 0.55 * ((t - hb_last st) / 1000)
                                else hb_heat st - 0.35 * ((t - hb_last st) / 1000)) 0 1
              \<and> clamp (if hb_holding st then hb_heat st + 0.55 * ((t - hb_last st) / 1000)
                       else hb_heat st - 0.35 * ((t - hb_last st) / 1000)) 0 1 \<le> hb_max st
      then (if 1 \<le> hb_bloom st + (t - hb_last st) / 1000 * 0.6 then 0
            else clamp (hb_bloom st + (t - hb_last st) / 1000 * 0.6) 0 1)
      else clamp (hb_bloom st - (t - hb_last st) / 1000 * 0.8) 0 1)"
  by (simp add: GameHeatBloom_loop_def Let_def frame_dt_def)

lemma pc_loop_zone:
  "pc_a (GamePressureCraft_loop t st) =
     (if 1 \<le> pc_b st + pc_dir st * ((t - pc_last st) / 1000) * (0.2 + pc_level st * 0.04)
         \<or> pc_a st + pc_dir st * ((t - pc_last st) / 1000) * (0.2 + pc_level st * 0.04) \<le> 0
      then clamp (pc_a st + pc_dir st * ((t - pc_last st) / 1000) * (0.2 + pc_level st * 0.04)) 0 0.85
      else pc_a st + pc_dir st * ((t - pc_last st) / 1000) * (0.2 + pc_level st * 0.04))
   \<and> pc_b (GamePressureCraft_loop t st) =
     (if 1 \<le> pc_b st + pc_dir st * ((t - pc_last st) / 1000) * (0.2 + pc_level st * 0.04)
         \<or> pc_a st + pc_dir st * ((t - pc_last st) / 1000) * (0.2 + pc_level st * 0.04) \<le> 0
      then clamp (pc_b st + pc_dir st * ((t - pc_last st) / 1000) * (0.2 + pc_level st * 0.04)) 0.15 1
      else pc_b st + pc_dir st * ((t - pc_last st) / 1000) * (0.2 + pc_level st * 0.04))"
  by (simp add: GamePressureCraft_loop_def Let_def frame_dt_def)

lemma zones_loop_zx:
  "map zx (fst (zones_loop dt W H y alive rnd i zs vy score)) =
     map (\<lambda>z. if zx z - 120 * dt < - 60 then zx z - 120 * dt + 5 * 220 else zx z - 120 * dt) zs"
proof (induction zs arbitrary: i vy score)
  case Nil
  show ?case by simp
next
  case (Cons z zs)
  obtain z' vy' score' where step: "zone_step dt W H y alive (rnd i) z vy score = (z', vy', score')"
    by (metis prod_cases3)
  obtain zs'' vy'' score'' where
    rest: "zones_loop dt W H y alive rnd (Suc i) zs vy' score' = (zs'', vy'', score'')"
    by (metis prod_cases3)
  have "zx z' = (if zx z - 120 * dt < - 60 then zx z - 120 * dt + 5 * 220 else zx z - 120 * dt)"
    using step by (auto simp: zone_step_def Let_def)
  moreover have "map zx zs'' =
      map (\<lambda>z. if zx z - 120 * dt < - 60 then zx z - 120 * dt + 5 * 220 else zx z - 120 * dt) zs"
    using Cons.IH [of "Suc i" vy' score'] rest by simp
  ultimately show ?case
    using step rest by simp
qed

lemma zones_loop_vy_one:
  "fst (snd (zones_loop dt W H y alive rnd i [z] vy score)) =
     vy - 240 * clamp (1 - sqrt ((W * 0.35 - (if zx z - 120 * dt < - 60 then zx z - 120 * dt + 5 * 220 else zx z - 120 * dt))
                                  * (W * 0.35 - (if zx z - 120 * dt < - 60 then zx z - 120 * dt + 5 * 220 else zx z - 120 * dt))
                                + (y - (if zx z - 120 * dt < - 60 then rand (rnd i) 120 (H - 120) else zy z))
                                  * (y - (if zx z - 120 * dt < - 60 then rand (rnd i) 120 (H - 120) else zy z)))
                          / zr z) 0 1 * dt"
  by (simp add: zone_step_def Let_def)

lemma physics_y:
  "fst (physics dt st) =
     min (al_H st - 10)
       (max 10 (al_y st + (if \<not> al_alive st then al_vy st + 40 * dt
                          else if al_press st then al_vy st + 160 * dt - 360 * dt
                          else al_vy st + 160 * dt) * dt))"
  by (simp add: physics_def Let_def min_def max_def)

lemma physics_vy_alive:
  "snd (physics dt st) =
     (let vy1 = (if \<not> al_alive st then al_vy st + 40 * dt
                 else if al_press st then al_vy st + 160 * dt - 360 * dt
                 else al_vy st + 160 * dt);
          y1 = al_y st + vy1 * dt
      in if y1 < 10 \<or> al_H st - 10 < y1 then (0, False) else (vy1, al_alive st))"
  by (auto simp: physics_def Let_def)

lemma al_loop_gap:
  "al_last (GameAscendLight_loop tt rnd st) = tt
   \<and> al_t (GameAscendLight_loop tt rnd st) = al_t st + (tt - al_last st) / 1000
   \<and> al_y (GameAscendLight_loop tt rnd st) =
       min (al_H st - 10)
         (max 10 (al_y st +
            (if \<not> al_alive st then al_vy st + 40 * ((tt - al_last st) / 1000)
             else if al_press st
               then al_vy st + 160 * ((tt - al_last st) / 1000) - 360 * ((tt - al_last st) / 1000)
             else al_vy st + 160 * ((tt - al_last st) / 1000)) * ((tt - al_last st) / 1000)))
   \<and> map zx (al_zones (GameAscendLight_loop tt rnd st)) =
       map (\<lambda>z. if zx z - 120 * ((tt - al_last st) / 1000) < - 60
                then zx z - 120 * ((tt - al_last st) / 1000) + 5 * 220
                else zx z - 120 * ((tt - al_last st) / 1000)) (al_zones st)
   \<and> (al_zones (GameAscendLight_loop tt rnd st), al_vy (GameAscendLight_loop tt rnd st),
        al_score (GameAscendLight_loop tt rnd st)) =
       zones_loop ((tt - al_last st) / 1000) (al_W st) (al_H st)
         (al_y (GameAscendLight_loop tt rnd st)) (al_alive (GameAscendLight_loop tt rnd st))
         rnd 0 (al_zones st) (fst (snd (physics ((tt - al_last st) / 1000) st))) (al_score st)"
proof -
  let ?dt = "(tt - al_last st) / 1000"
  obtain y vy alive where p: "physics ?dt st = (y, vy, alive)"
    by (metis prod_cases3)
  obtain zs vy1 score1 where
    z: "zones_loop ?dt (al_W st) (al_H st) y alive rnd 0 (al_zones st) vy (al_score st)
          = (zs, vy1, score1)"
    by (metis prod_cases3)
  have loop: "GameAscendLight_loop tt rnd st =
      st\<lparr>al_last := tt, al_t := al_t st + ?dt, al_y := y, al_vy := vy1,
         al_alive := alive, al_zones := zs, al_score := score1\<rparr>"
    by (simp add: GameAscendLight_loop_def Let_def frame_dt_def p z)
  have c1: "al_last (GameAscendLight_loop tt rnd st) = tt"
    and c2: "al_t (GameAscendLight_loop tt rnd st) = al_t st + ?dt"
    and ly: "al_y (GameAscendLight_loop tt rnd st) = y"
    and la: "al_alive (GameAscendLight_loop tt rnd st) = alive"
    and lz: "al_zones (GameAscendLight_loop tt rnd st) = zs"
    and lv: "al_vy (GameAscendLight_loop tt rnd st) = vy1"
    and ls: "al_score (GameAscendLight_loop tt rnd st) = score1"
    by (simp_all add: loop)
  have "y = fst (physics ?dt st)" by (simp add: p)
  then have c3: "al_y (GameAscendLight_loop tt rnd st) =
       min (al_H st - 10)
         (max 10 (al_y st +
            (if \<not> al_alive st then al_vy st + 40 * ?dt
             else if al_press st then al_vy st + 160 * ?dt - 360 * ?dt
             else al_vy st + 160 * ?dt) * ?dt))"
    unfolding ly by (simp only: physics_y)
  have "map zx zs =
       map (\<lambda>z. if zx z - 120 * ?dt < - 60 then zx z - 120 * ?dt + 5 * 220
                else zx z - 120 * ?dt) (al_zones st)"
    using zones_loop_zx [of ?dt "al_W st" "al_H st" y alive rnd 0 "al_zones st" vy "al_score st"]
    by (simp only: z fst_conv)
  then have c4: "map zx (al_zones (GameAscendLight_loop tt rnd st)) =
       map (\<lambda>z. if zx z - 120 * ?dt < - 60 then zx z - 120 * ?dt + 5 * 220
                else zx z - 120 * ?dt) (al_zones st)"
    by (simp only: lz)
  have vy: "fst (snd (physics ?dt st)) = vy" by (simp add: p)
  have c5: "(al_zones (GameAscendLight_loop tt rnd st), al_vy (GameAscendLight_loop tt rnd st),
        al_score (GameAscendLight_loop tt rnd st)) =
       zones_loop ?dt (al_W st) (al_H st)
         (al_y (GameAscendLight_loop tt rnd st)) (al_alive (GameAscendLight_loop tt rnd st))
         rnd 0 (al_zones st) (fst (snd (physics ?dt st))) (al_score st)"
    by (simp only: ly la lz lv ls vy z)
  from c1 c2 c3 c4 c5 show ?thesis by blast
qed

text \<open>
  Claim C2 as stated: the frame gap \<open>dt\<close> fed into the integration is clamped to at most
  0.1 s. After a gap of 5000 ms the loop of HeatBloom computes \<open>dt = 5\<close> and integrates
  with it: a held heat goes from 0 to 1 in that one frame, and so does a held fill in
  PressureCraft.
\<close>

theorem dt_not_clamped_counterexample:
  "frame_dt 5000 (hb_last (GameHeatBloom_init 0)) = 5
   \<and> \<not> frame_dt 5000 (hb_last (GameHeatBloom_init 0)) \<le> 0.1
   \<and> hb_viewHeat (GameHeatBloom_step (GameHeatBloom_step (GameHeatBloom_init 0) HeatDown)
        (HeatFrame 5000 0 0 0 0)) = 1
   \<and> pc_fill (GamePressureCraft_step (GamePressureCraft_step (GamePressureCraft_init 0) PressureDown)
        (PressureFrame 5000)) = 1"
  by (simp add: frame_dt_def GameHeatBloom_init_def GameHeatBloom_loop_def
      GamePressureCraft_init_def GamePressureCraft_loop_def clamp_def Let_def rand_def)

text \<open>
  Claim C2, amended. No loop clamps \<open>dt\<close>: each integrates with the whole gap
  \<open>(t - last) / 1000\<close>, whatever its size. This holds of every quantity a loop integrates:
  the heat and the bloom of HeatBloom, the length of TensionLine, the fill and the zone
  of PressureCraft, and in AscendLight the clock \<open>t\<close>, the velocity and the height of the
  ship, and the zones and their updraft. What is clamped, for every gap, is the
  integrated quantity: after every frame the heat and the bloom of HeatBloom, the length
  of TensionLine and the fill of PressureCraft lie in \<open>[0, 1]\<close>, the zone of PressureCraft
  starts at 0 or above and ends at 1 or below, and the height of AscendLight is at most
  \<open>H - 10\<close> and, for a canvas at least 20 high, at least 10.
\<close>

theorem frame_state_clamped:
  "hb_viewHeat (GameHeatBloom_loop t u1 u2 u3 u4 hst) =
      clamp (if hb_holding hst then hb_heat hst + 0.55 * ((t - hb_last hst) / 1000)
             else hb_heat hst - 0.35 * ((t - hb_last hst) / 1000)) 0 1
   \<and> 0 \<le> hb_heat (GameHeatBloom_loop t u1 u2 u3 u4 hst)
   \<and> hb_heat (GameHeatBloom_loop t u1 u2 u3 u4 hst) \<le> 1
   \<and> 0 \<le> hb_bloom (GameHeatBloom_loop t u1 u2 u3 u4 hst)
   \<and> hb_bloom (GameHeatBloom_loop t u1 u2 u3 u4 hst) \<le> 1
   \<and> tl_len (GameTensionLine_loop t tst) =
      (if tl_pulling tst then clamp (tl_len tst + (t - tl_last tst) / 1000 * 0.35) 0 1
       else clamp (tl_len tst - (t - tl_last tst) / 1000 * 0.25) 0 1)
   \<and> 0 \<le> tl_len (GameTensionLine_loop t tst) \<and> tl_len (GameTensionLine_loop t tst) \<le> 1
   \<and> pc_fill (GamePressureCraft_loop t cst) =
      clamp (pc_fill cst + (if pc_holding cst then 1 else - 1) * ((t - pc_last cst) / 1000) * 0.8) 0 1
   \<and> 0 \<le> pc_fill (GamePressureCraft_loop t cst) \<and> pc_fill (GamePressureCraft_loop t cst) \<le> 1
   \<and> 0 \<le> pc_a (GamePressureCraft_loop t cst) \<and> pc_b (GamePressureCraft_loop t cst) \<le> 1
   \<and> al_y (GameAscendLight_loop t rnd ast) \<le> al_H ast - 10
   \<and> (20 \<le> al_H ast \<longrightarrow> 10 \<le> al_y (GameAscendLight_loop t rnd ast))
   \<and> hb_bloom (GameHeatBloom_loop t u1 u2 u3 u4 hst) =
     (if 0.995 \<le> clamp (if hb_holding hst then hb_heat hst + 0.55 * ((t - hb_last hst) / 1000)
                        else hb_heat hst - 0.35 * ((t - hb_last hst) / 1000)) 0 1
      then 0
      else if hb_min hst \<le> clamp (if hb_holding hst then hb_heat hst + 0.55 * ((t - hb_last hst) / 1000)
                                else hb_heat hst - 0.35 * ((t - hb_last hst) / 1000)) 0 1
              \<and> clamp (if hb_holding hst then hb_heat hst + 0.55 * ((t - hb_last hst) / 1000)
                       else hb_heat hst - 0.35 * ((t - hb_last hst) / 1000)) 0 1 \<le> hb_max hst
      then (if 1 \<le> hb_bloom hst + (t - hb_last hst) / 1000 * 0.6 then 0
            else clamp (hb_bloom hst + (t - hb_last hst) / 1000 * 0.6) 0 1)
      else clamp (hb_bloom hst - (t - hb_last hst) / 1000 * 0.8) 0 1)
   \<and> pc_a (GamePressureCraft_loop t cst) =
     (if 1 \<le> pc_b cst + pc_dir cst * ((t - pc_last cst) / 1000) * (0.2 + pc_level cst * 0.04)
         \<or> pc_a cst + pc_dir cst * ((t - pc_last cst) / 1000) * (0.2 + pc_level cst * 0.04) \<le> 0
      then clamp (pc_a cst + pc_dir cst * ((t - pc_last cst) / 1000) * (0.2 + pc_level cst * 0.04)) 0 0.85
      else pc_a cst + pc_dir cst * ((t - pc_last cst) / 1000) * (0.2 + pc_level cst * 0.04))
   \<and> pc_b (GamePressureCraft_loop t cst) =
     (if 1 \<le> pc_b cst + pc_dir cst * ((t - pc_last cst) / 1000) * (0.2 + pc_level cst * 0.04)
         \<or> pc_a cst + pc_dir cst * ((t - pc_last cst) / 1000) * (0.2 + pc_level cst * 0.04) \<le> 0
      then clamp (pc_b cst + pc_dir cst * ((t - pc_last cst) / 1000) * (0.2 + pc_level cst * 0.04)) 0.15 1
      else pc_b cst + pc_dir cst * ((t - pc_last cst) / 1000) * (0.2 + pc_level cst * 0.04))
   \<and> al_last (GameAscendLight_loop t rnd ast) = t
   \<and> al_t (GameAscendLight_loop t rnd ast) = al_t ast + (t - al_last ast) / 1000
   \<and> al_y (GameAscendLight_loop t rnd ast) =
       min (al_H ast - 10)
         (max 10 (al_y ast +
            (if \<not> al_alive ast then al_vy ast + 40 * ((t - al_last ast) / 1000)
             else if al_press ast
               then al_vy ast + 160 * ((t - al_last ast) / 1000) - 360 * ((t - al_last ast) / 1000)
             else al_vy ast + 160 * ((t - al_last ast) / 1000)) * ((t - al_last ast) / 1000)))
   \<and> map zx (al_zones (GameAscendLight_loop t rnd ast)) =
       map (\<lambda>z. if zx z - 120 * ((t - al_last ast) / 1000) < - 60
                then zx z - 120 * ((t - al_last ast) / 1000) + 5 * 220
                else zx z - 120 * ((t - al_last ast) / 1000)) (al_zones ast)
   \<and> (al_zones (GameAscendLight_loop t rnd ast), al_vy (GameAscendLight_loop t rnd ast),
        al_score (GameAscendLight_loop t rnd ast)) =
       zones_loop ((t - al_last ast) / 1000) (al_W ast) (al_H ast)
         (al_y (GameAscendLight_loop t rnd ast)) (al_alive (GameAscendLight_loop t rnd ast))
         rnd 0 (al_zones ast) (fst (snd (physics ((t - al_last ast) / 1000) ast))) (al_score ast)
   \<and> fst (snd (zones_loop dt W H y alive rnd i [z] vy score)) =
       vy - 240 * clamp (1 - sqrt ((W * 0.35 - (if zx z - 120 * dt < - 60 then zx z - 120 * dt + 5 * 220 else zx z - 120 * dt))
                                  * (W * 0.35 - (if zx z - 120 * dt < - 60 then zx z - 120 * dt + 5 * 220 else zx z - 120 * dt))
                                + (y - (if zx z - 120 * dt < - 60 then rand (rnd i) 120 (H - 120) else zy z))
                                  * (y - (if zx z - 120 * dt < - 60 then rand (rnd i) 120 (H - 120) else zy z)))
                          / zr z) 0 1 * dt
   \<and> snd (physics dt ast) =
       (let vy1 = (if \<not> al_alive ast then al_vy ast + 40 * dt
                   else if al_press ast then al_vy ast + 160 * dt - 360 * dt
                   else al_vy ast + 160 * dt);
            y1 = al_y ast + vy1 * dt
        in if y1 < 10 \<or> al_H ast - 10 < y1 then (0, False) else (vy1, al_alive ast))"
proof -
  note ph = physics_vy_alive [of dt ast]
  note hb = hb_loop_bounds [of t u1 u2 u3 u4 hst]
  note tl = tl_loop_bounds [of t tst]
  note pc = pc_loop_bounds [of t cst]
  note al = al_loop_bounds [of t rnd ast]
  note bl = hb_loop_bloom [of t u1 u2 u3 u4 hst]
  note zn = pc_loop_zone [of t cst]
  note gap = al_loop_gap [of t rnd ast]
  note one = zones_loop_vy_one [of dt W H y alive rnd i z vy score]
  from hb tl pc al have bounds:
    "hb_viewHeat (GameHeatBloom_loop t u1 u2 u3 u4 hst) =
      clamp (if hb_holding hst then hb_heat hst + 0.55 * ((t - hb_last hst) / 1000)
             else hb_heat hst - 0.35 * ((t - hb_last hst) / 1000)) 0 1
   \<and> 0 \<le> hb_heat (GameHeatBloom_loop t u1 u2 u3 u4 hst)
   \<and> hb_heat (GameHeatBloom_loop t u1 u2 u3 u4 hst) \<le> 1
   \<and> 0 \<le> hb_bloom (GameHeatBloom_loop t u1 u2 u3 u4 hst)
   \<and> hb_bloom (GameHeatBloom_loop t u1 u2 u3 u4 hst) \<le> 1
   \<and> tl_len (GameTensionLine_loop t tst) =
      (if tl_pulling tst then clamp (tl_len tst + (t - tl_last tst) / 1000 * 0.35) 0 1
       else clamp (tl_len tst - (t - tl_last tst) / 1000 * 0.25) 0 1)
   \<and> 0 \<le> tl_len (GameTensionLine_loop t tst) \<and> tl_len (GameTensionLine_loop t tst) \<le> 1
   \<and> pc_fill (GamePressureCraft_loop t cst) =
      clamp (pc_fill cst + (if pc_holding cst then 1 else - 1) * ((t - pc_last cst) / 1000) * 0.8) 0 1
   \<and> 0 \<le> pc_fill (GamePressureCraft_loop t cst) \<and> pc_fill (GamePressureCraft_loop t cst) \<le> 1
   \<and> 0 \<le> pc_a (GamePressureCraft_loop t cst) \<and> pc_b (GamePressureCraft_loop t cst) \<le> 1
   \<and> al_y (GameAscendLight_loop t rnd ast) \<le> al_H ast - 10
   \<and> (20 \<le> al_H ast \<longrightarrow> 10 \<le> al_y (GameAscendLight_loop t rnd ast))"
    by blast
  from bounds bl zn gap one ph show ?thesis
    by blast
qed

text \<open>After a gap of 5000 ms a held heat is shown as 1, a held fill is 1, the clock of
  AscendLight has advanced by 5 seconds and its ship is between 10 and 550 on a canvas
  560 high.\<close>

theorem frame_state_clamped_witness:
  "hb_viewHeat (GameHeatBloom_loop 5000 0 0 0 0 ((GameHeatBloom_init 0)\<lparr>hb_holding := True\<rparr>)) = 1
   \<and> pc_fill (GamePressureCraft_loop 5000 ((GamePressureCraft_init 0)\<lparr>pc_holding := True\<rparr>)) = 1
   \<and> (20::real) \<le> al_H (GameAscendLight_init 0 360 560 (\<lambda>i. 0))
   \<and> 10 \<le> al_y (GameAscendLight_loop 5000 (\<lambda>i. 0) (GameAscendLight_init 0 360 560 (\<lambda>i. 0)))
   \<and> al_y (GameAscendLight_loop 5000 (\<lambda>i. 0) (GameAscendLight_init 0 360 560 (\<lambda>i. 0))) \<le> 550
   \<and> al_t (GameAscendLight_loop 5000 (\<lambda>i. 0) (GameAscendLight_init 0 360 560 (\<lambda>i. 0))) = 5"
proof -
  have H: "al_H (GameAscendLight_init 0 360 560 (\<lambda>i. 0)) = 560
      \<and> al_t (GameAscendLight_init 0 360 560 (\<lambda>i. 0)) = 0
      \<and> al_last (GameAscendLight_init 0 360 560 (\<lambda>i. 0)) = 0"
    by (simp add: GameAscendLight_init_def Let_def)
  have hb: "hb_holding ((GameHeatBloom_init 0)\<lparr>hb_holding := True\<rparr>)
      \<and> hb_heat ((GameHeatBloom_init 0)\<lparr>hb_holding := True\<rparr>) = 0
      \<and> hb_last ((GameHeatBloom_init 0)\<lparr>hb_holding := True\<rparr>) = 0"
    by (simp add: GameHeatBloom_init_def)
  have pc: "pc_holding ((GamePressureCraft_init 0)\<lparr>pc_holding := True\<rparr>)
      \<and> pc_fill ((GamePressureCraft_init 0)\<lparr>pc_holding := True\<rparr>) = 0
      \<and> pc_last ((GamePressureCraft_init 0)\<lparr>pc_holding := True\<rparr>) = 0"
    by (simp add: GamePressureCraft_init_def)
  note inst = frame_state_clamped [of 5000 0 0 0 0 "(GameHeatBloom_init 0)\<lparr>hb_holding := True\<rparr>" _
        "(GamePressureCraft_init 0)\<lparr>pc_holding := True\<rparr>" "\<lambda>i. 0"
        "GameAscendLight_init 0 360 560 (\<lambda>i. 0)"]
  have "hb_viewHeat (GameHeatBloom_loop 5000 0 0 0 0 ((GameHeatBloom_init 0)\<lparr>hb_holding := True\<rparr>)) = 1"
    using inst [THEN conjunct1] by (simp add: hb clamp_def)
  moreover have "pc_fill (GamePressureCraft_loop 5000 ((GamePressureCraft_init 0)\<lparr>pc_holding := True\<rparr>)) = 1"
    using inst by (simp add: pc clamp_def)
  moreover have "10 \<le> al_y (GameAscendLight_loop 5000 (\<lambda>i. 0) (GameAscendLight_init 0 360 560 (\<lambda>i. 0)))
      \<and> al_y (GameAscendLight_loop 5000 (\<lambda>i. 0) (GameAscendLight_init 0 360 560 (\<lambda>i. 0))) \<le> 550"
    using inst H by simp
  moreover have "al_t (GameAscendLight_loop 5000 (\<lambda>i. 0) (GameAscendLight_init 0 360 560 (\<lambda>i. 0))) = 5"
    using inst H by simp
  ultimately show ?thesis using H by simp
qed

subsection \<open>Heartbeat: calibration\<close>

lemma clampJ_bounds: "lo \<le> hi \<Longrightarrow> lo \<le> clampJ x lo hi \<and> clampJ x lo hi \<le> hi"
  by (cases x) (simp_all add: clamp_def)

lemma ht_cal_taps:
  "length ts < 6 \<Longrightarrow>
   foldl GameHeartbeat_step GameHeartbeat_init (map HeartTap ts) = GameHeartbeat_init\<lparr>ht_taps := ts\<rparr>"
proof (induction ts rule: rev_induct)
  case Nil
  show ?case by (simp add: GameHeartbeat_init_def)
next
  case (snoc t ts)
  then have "foldl GameHeartbeat_step GameHeartbeat_init (map HeartTap ts)
      = GameHeartbeat_init\<lparr>ht_taps := ts\<rparr>"
    by simp
  then show ?case
    using snoc.prems by (simp add: GameHeartbeat_onTap_def GameHeartbeat_init_def Let_def)
qed

lemma ht_commit_phase_bpm:
  "ht_phase (GameHeartbeat_commit now old new) = ht_phase new
   \<and> ht_bpm (GameHeartbeat_commit now old new) = ht_bpm new"
  by (simp add: GameHeartbeat_commit_def GameHeartbeat_effect_def GameHeartbeat_tick_def
      GameHeartbeat_cleanup_def)

lemma ht_sixth_tap:
  assumes "length ts = 5"
  shows "ht_phase (GameHeartbeat_step (GameHeartbeat_init\<lparr>ht_taps := ts\<rparr>) (HeartTap t)) = PSync
    \<and> ht_bpm (GameHeartbeat_step (GameHeartbeat_init\<lparr>ht_taps := ts\<rparr>) (HeartTap t))
        = clampJ (js_div_pos 60000 (mean_interval (ts @ [t]))) 50 150"
  using assms
  by (simp add: GameHeartbeat_onTap_def GameHeartbeat_init_def Let_def ht_commit_phase_bpm)

lemma ht_sync_step:
  assumes "ht_phase st = PSync"
  shows "ht_phase (GameHeartbeat_step st e) = PSync \<and> ht_bpm (GameHeartbeat_step st e) = ht_bpm st"
proof (cases e)
  case (HeartTap t)
  then show ?thesis using assms by (simp add: GameHeartbeat_onTap_def Let_def)
next
  case HeartFire
  show ?thesis
  proof (cases "earliest (ht_pending st)")
    case None
    then show ?thesis using assms HeartFire by (simp add: GameHeartbeat_fire_def)
  next
    case (Some x)
    then show ?thesis using assms HeartFire
      by (cases "cb x") (simp_all add: GameHeartbeat_fire_def GameHeartbeat_tick_def)
  qed
next
  case HeartExit
  then show ?thesis using assms
    by (simp add: GameHeartbeat_unmount_def GameHeartbeat_cleanup_def)
qed

lemma ht_sync_run:
  "ht_phase st = PSync \<Longrightarrow>
   ht_phase (foldl GameHeartbeat_step st es) = PSync \<and> ht_bpm (foldl GameHeartbeat_step st es) = ht_bpm st"
proof (induction es arbitrary: st)
  case Nil
  then show ?case by simp
next
  case (Cons e es)
  from ht_sync_step [OF Cons.prems, of e] Cons.IH [of "GameHeartbeat_step st e"]
  show ?case by simp
qed

lemma ht_six_taps:
  assumes "length ts = 6"
  shows "ht_phase (foldl GameHeartbeat_step GameHeartbeat_init (map HeartTap ts)) = PSync
    \<and> ht_bpm (foldl GameHeartbeat_step GameHeartbeat_init (map HeartTap ts))
        = clampJ (js_div_pos 60000 (mean_interval ts)) 50 150"
proof -
  from assms have ts: "ts = butlast ts @ [last ts]" and len: "length (butlast ts) = 5"
    by (auto simp: length_0_conv [symmetric] simp del: length_0_conv)
  have "foldl GameHeartbeat_step GameHeartbeat_init (map HeartTap (butlast ts @ [last ts]))
      = GameHeartbeat_step (GameHeartbeat_init\<lparr>ht_taps := butlast ts\<rparr>) (HeartTap (last ts))"
    using ht_cal_taps [of "butlast ts"] len by simp
  then show ?thesis
    using ht_sixth_tap [OF len, of "last ts"] ts by simp
qed

text \<open>
  Claim C7. While Heartbeat calibrates, the sixth tap sets the tempo to
  \<^verbatim>\<open>clamp(60000 / avg, 50, 150)\<close>, where \<open>avg\<close> is the mean of the five gaps between
  neighbouring taps, and the phase becomes sync; the tempo lies between 50 and 150 and
  stays as it is whatever happens afterwards. When the mean gap is 0 (all taps at the same
  time) the quotient is \<^verbatim>\<open>Infinity\<close> and the tempo is 150. With fewer than six taps the
  phase is still the calibration.
\<close>

theorem heartbeat_calibration:
  assumes "length ts = 6"
  shows "ht_phase (foldl GameHeartbeat_step GameHeartbeat_init (map HeartTap ts @ es)) = PSync
    \<and> ht_bpm (foldl GameHeartbeat_step GameHeartbeat_init (map HeartTap ts @ es))
        = clampJ (js_div_pos 60000 (mean_interval ts)) 50 150
    \<and> 50 \<le> ht_bpm (foldl GameHeartbeat_step GameHeartbeat_init (map HeartTap ts @ es))
    \<and> ht_bpm (foldl GameHeartbeat_step GameHeartbeat_init (map HeartTap ts @ es)) \<le> 150
    \<and> (mean_interval ts \<noteq> 0 \<longrightarrow>
         ht_bpm (foldl GameHeartbeat_step GameHeartbeat_init (map HeartTap ts @ es))
           = clamp (60000 / mean_interval ts) 50 150)
    \<and> (mean_interval ts = 0 \<longrightarrow>
         ht_bpm (foldl GameHeartbeat_step GameHeartbeat_init (map HeartTap ts @ es)) = 150)
    \<and> (length ts' < 6 \<longrightarrow>
         ht_phase (foldl GameHeartbeat_step GameHeartbeat_init (map HeartTap ts')) = PCal)"
proof -
  let ?st = "foldl GameHeartbeat_step GameHeartbeat_init (map HeartTap ts)"
  have six: "ht_phase ?st = PSync \<and> ht_bpm ?st = clampJ (js_div_pos 60000 (mean_interval ts)) 50 150"
    using ht_six_taps [OF assms] .
  then have run: "ht_phase (foldl GameHeartbeat_step ?st es) = PSync
      \<and> ht_bpm (foldl GameHeartbeat_step ?st es) = clampJ (js_div_pos 60000 (mean_interval ts)) 50 150"
    using ht_sync_run [of ?st es] by simp
  have cal: "length ts' < 6 \<longrightarrow>
      ht_phase (foldl GameHeartbeat_step GameHeartbeat_init (map HeartTap ts')) = PCal"
  proof
    assume "length ts' < 6"
    from ht_cal_taps [OF this] show
      "ht_phase (foldl GameHeartbeat_step GameHeartbeat_init (map HeartTap ts')) = PCal"
      by (simp add: GameHeartbeat_init_def)
  qed
  show ?thesis
    using run cal clampJ_bounds [of 50 150 "js_div_pos 60000 (mean_interval ts)"]
    by (simp add: js_div_pos_def)
qed

text \<open>Six taps at the same time give a mean gap of 0 and a tempo of 150; six taps 500 ms
  apart give a tempo of 120.\<close>

theorem heartbeat_calibration_witness:
  "length [1000, 1000, 1000, 1000, 1000, 1000 :: real] = 6
   \<and> mean_interval [1000, 1000, 1000, 1000, 1000, 1000] = 0
   \<and> ht_phase (foldl GameHeartbeat_step GameHeartbeat_init
        (map HeartTap [1000, 1000, 1000, 1000, 1000, 1000] @ [HeartFire, HeartTap 1400])) = PSync
   \<and> ht_bpm (foldl GameHeartbeat_step GameHeartbeat_init
        (map HeartTap [1000, 1000, 1000, 1000, 1000, 1000] @ [HeartFire, HeartTap 1400])) = 150
   \<and> mean_interval [0, 500, 1000, 1500, 2000, 2500] = 500
   \<and> ht_bpm (foldl GameHeartbeat_step GameHeartbeat_init
        (map HeartTap [0, 500, 1000, 1500, 2000, 2500] @ [])) = 120"
proof -
  have m0: "mean_interval [1000, 1000, 1000, 1000, 1000, 1000] = 0"
    by (simp add: mean_interval_def tap_intervals_def)
  have m1: "mean_interval [0, 500, 1000, 1500, 2000, 2500] = 500"
    by (simp add: mean_interval_def tap_intervals_def)
  have l0: "length [1000, 1000, 1000, 1000, 1000, 1000 :: real] = 6"
    and l1: "length [0, 500, 1000, 1500, 2000, 2500 :: real] = 6"
    by simp_all
  show ?thesis
    using heartbeat_calibration [OF l0, of "[HeartFire, HeartTap 1400]" "[]"]
      heartbeat_calibration [OF l1, of "[]" "[]"] m0 m1
    by (simp add: clamp_def)
qed

subsection \<open>Echo Orb: the listen phase\<close>

lemmas echo_defs = GameEchoOrb_mount_def GameEchoOrb_init_def GameEchoOrb_effect_def
  GameEchoOrb_fire_def GameEchoOrb_commit_def GameEchoOrb_cleanup_def GameEchoOrb_onTap_def
  GameEchoOrb_unmount_def setTimeout_def clearTimeout_def

lemma singleton_list: "length xs = Suc 0 \<Longrightarrow> xs = [hd xs]"
  by (cases xs) simp_all

lemma eo_mounted_fire: "eo_mounted (GameEchoOrb_fire u s) = eo_mounted s"
proof (cases "earliest (eo_pending s)")
  case None
  then show ?thesis by (simp add: GameEchoOrb_fire_def)
next
  case (Some x)
  then show ?thesis
    by (cases "cb x")
      (simp_all add: GameEchoOrb_fire_def GameEchoOrb_commit_def GameEchoOrb_effect_def
        GameEchoOrb_cleanup_def)
qed

lemma echo_shape_mount: "echo_shape (GameEchoOrb_mount T0) \<and> eo_mounted (GameEchoOrb_mount T0)"
  by (simp add: echo_shape_def listen_shape_def GameEchoOrb_mount_def GameEchoOrb_init_def
      GameEchoOrb_effect_def setTimeout_def)

lemma echo_shape_onTap:
  assumes "echo_shape s" and "eo_mounted s"
  shows "echo_shape (GameEchoOrb_onTap t s)"
proof (cases "eo_phase s = PTap")
  case False
  then show ?thesis using assms by (simp add: GameEchoOrb_onTap_def)
next
  case True
  with assms have p: "eo_pending s = []" "eo_timer s = None"
    by (simp_all add: echo_shape_def)
  show ?thesis
    using True assms(2) p
    by (simp add: GameEchoOrb_onTap_def Let_def GameEchoOrb_commit_def GameEchoOrb_effect_def
        GameEchoOrb_cleanup_def clearTimeout_def setTimeout_def echo_shape_def)
qed

lemma echo_fire_listen:
  assumes "listen_shape s" and "eo_mounted s" and "eo_phase s = PListen"
  shows "eo_cues (GameEchoOrb_fire u s) = eo_cues s
    \<and> eo_pulse (GameEchoOrb_fire u s) = 0
    \<and> eo_intervalMs (GameEchoOrb_fire u s) = eo_intervalMs s
    \<and> (if eo_pulse s = 1
        then eo_phase (GameEchoOrb_fire u s) = PListen \<and> listen_shape (GameEchoOrb_fire u s)
          \<and> due (hd (eo_pending (GameEchoOrb_fire u s)))
              = due (hd (eo_pending s)) + max 0 (eo_intervalMs s)
        else eo_phase (GameEchoOrb_fire u s) = PTap \<and> eo_pending (GameEchoOrb_fire u s) = []
          \<and> eo_timer (GameEchoOrb_fire u s) = None)"
proof -
  from assms(1) have len: "length (eo_pending s) = Suc 0"
    by (simp add: listen_shape_def)
  define x where "x = hd (eo_pending s)"
  have pend: "eo_pending s = [x]"
    using singleton_list [OF len] by (simp add: x_def)
  show ?thesis
  proof (cases "cb x")
    case (EchoPulseOff ms)
    with assms pend show ?thesis
      by (simp add: listen_shape_def GameEchoOrb_fire_def setTimeout_def)
  next
    case EchoToTap
    with assms pend show ?thesis
      by (simp add: listen_shape_def GameEchoOrb_fire_def GameEchoOrb_commit_def
          GameEchoOrb_effect_def GameEchoOrb_cleanup_def clearTimeout_def)
  next
    case EchoResultDone
    with assms pend show ?thesis by (simp add: listen_shape_def)
  qed
qed

lemma echo_shape_fire:
  assumes "echo_shape s" and "eo_mounted s"
  shows "echo_shape (GameEchoOrb_fire u s)"
proof (cases "eo_phase s")
  case PListen
  with assms have ls: "listen_shape s" by (simp add: echo_shape_def)
  from echo_fire_listen [OF ls assms(2) PListen, of u] show ?thesis
    by (simp add: echo_shape_def split: if_splits)
next
  case PTap
  with assms show ?thesis by (simp add: echo_shape_def GameEchoOrb_fire_def)
next
  case PResult
  with assms have m: "map cb (eo_pending s) = [EchoResultDone]" and tm: "eo_timer s = None"
    by (simp_all add: echo_shape_def)
  then obtain x where pend: "eo_pending s = [x]" and cbx: "cb x = EchoResultDone"
    by (cases "eo_pending s") auto
  show ?thesis
    using PResult assms(2) pend cbx tm
    by (simp add: GameEchoOrb_fire_def GameEchoOrb_commit_def GameEchoOrb_effect_def
        GameEchoOrb_cleanup_def clearTimeout_def setTimeout_def echo_shape_def listen_shape_def)
qed

lemma echo_shape_step:
  assumes "eo_mounted s \<longrightarrow> echo_shape s"
  shows "eo_mounted (GameEchoOrb_step s e) \<longrightarrow> echo_shape (GameEchoOrb_step s e)"
proof (cases e)
  case (EchoTap t)
  then show ?thesis using assms echo_shape_onTap [of s t] by simp
next
  case (EchoFire u)
  then show ?thesis using assms echo_shape_fire [of s u] by (simp add: eo_mounted_fire)
next
  case EchoExit
  then show ?thesis using assms by (simp add: GameEchoOrb_unmount_def)
qed

lemma echo_shape_run:
  "eo_mounted s \<longrightarrow> echo_shape s \<Longrightarrow>
   eo_mounted (foldl GameEchoOrb_step s es) \<longrightarrow> echo_shape (foldl GameEchoOrb_step s es)"
proof (induction es arbitrary: s)
  case Nil
  then show ?case by simp
next
  case (Cons e es)
  from Cons.IH [OF echo_shape_step [OF Cons.prems, of e]] show ?case by simp
qed

lemma rand_range:
  assumes "0 \<le> u" and "u < 1" and "lo < hi"
  shows "lo \<le> rand u lo hi \<and> rand u lo hi < hi"
proof -
  have "0 \<le> u * (hi - lo)" using assms by simp
  moreover have "u * (hi - lo) < 1 * (hi - lo)"
    using assms by (intro mult_strict_right_mono) simp_all
  ultimately show ?thesis by (simp add: rand_def)
qed

lemma echo_result_done:
  assumes "eo_mounted st"
  shows "eo_intervalMs (GameEchoOrb_run u now EchoResultDone st) = rand u 500 1400
    \<and> eo_phase (GameEchoOrb_run u now EchoResultDone st) = PListen
    \<and> eo_taps (GameEchoOrb_run u now EchoResultDone st) = []"
  using assms
  by (simp add: GameEchoOrb_commit_def GameEchoOrb_effect_def GameEchoOrb_cleanup_def)

lemma echo_fire_result:
  assumes "echo_shape r" and "eo_mounted r" and "eo_phase r = PResult"
  shows "eo_intervalMs (GameEchoOrb_fire u r) = rand u 500 1400
    \<and> eo_phase (GameEchoOrb_fire u r) = PListen
    \<and> eo_pulse (GameEchoOrb_fire u r) = 1
    \<and> eo_cues (GameEchoOrb_fire u r) =
        eo_cues r @ [(due (hd (eo_pending r)), Tone 240 0.1), (due (hd (eo_pending r)), Vibrate [10])]
    \<and> map due (eo_pending (GameEchoOrb_fire u r)) = [due (hd (eo_pending r)) + 300]"
proof -
  from assms have m: "map cb (eo_pending r) = [EchoResultDone]" and tm: "eo_timer r = None"
    by (simp_all add: echo_shape_def)
  then obtain x where pend: "eo_pending r = [x]" and cbx: "cb x = EchoResultDone"
    by (cases "eo_pending r") auto
  show ?thesis
    using assms(2,3) pend cbx tm
    by (simp add: GameEchoOrb_fire_def GameEchoOrb_commit_def GameEchoOrb_effect_def
        GameEchoOrb_cleanup_def clearTimeout_def setTimeout_def)
qed

lemma echo_step_interval:
  "eo_intervalMs (GameEchoOrb_step s e) = eo_intervalMs s
   \<or> (\<exists>v. e = EchoFire v \<and> eo_intervalMs (GameEchoOrb_step s e) = rand v 500 1400)"
proof (cases e)
  case (EchoTap t)
  then show ?thesis
    by (simp add: GameEchoOrb_onTap_def Let_def GameEchoOrb_commit_def GameEchoOrb_effect_def
        GameEchoOrb_cleanup_def)
next
  case (EchoFire v)
  show ?thesis
  proof (cases "earliest (eo_pending s)")
    case None
    then show ?thesis using EchoFire by (simp add: GameEchoOrb_fire_def)
  next
    case (Some x)
    then show ?thesis using EchoFire
      by (cases "cb x")
        (simp_all add: GameEchoOrb_fire_def GameEchoOrb_commit_def GameEchoOrb_effect_def
          GameEchoOrb_cleanup_def)
  qed
next
  case EchoExit
  then show ?thesis by (simp add: GameEchoOrb_unmount_def GameEchoOrb_cleanup_def)
qed

lemma echo_run_interval:
  "eo_intervalMs (foldl GameEchoOrb_step s es) = eo_intervalMs s
   \<or> (\<exists>v. EchoFire v \<in> set es \<and> eo_intervalMs (foldl GameEchoOrb_step s es) = rand v 500 1400)"
proof (induction es rule: rev_induct)
  case Nil
  show ?case by simp
next
  case (snoc e es)
  from echo_step_interval [of "foldl GameEchoOrb_step s es" e] snoc.IH show ?case
    by auto
qed

lemma echo_mount_interval: "eo_intervalMs (GameEchoOrb_mount T0) = 800"
  by (simp add: GameEchoOrb_mount_def GameEchoOrb_effect_def GameEchoOrb_init_def)

text \<open>
  Claim C8 as stated: in the listen phase two cues are given, separated by the interval,
  before the phase becomes tap. In the first cycle (interval 800 ms, mounted at time 0)
  the phase is tap after the two timers of the effect have fired, and the only cues given
  are the tone and the vibration at time 0: there is no second cue.
\<close>

theorem echo_single_cue_counterexample:
  "eo_intervalMs (GameEchoOrb_mount 0) = 800
   \<and> eo_phase (foldl GameEchoOrb_step (GameEchoOrb_mount 0) [EchoFire 0]) = PListen
   \<and> eo_phase (foldl GameEchoOrb_step (GameEchoOrb_mount 0) [EchoFire 0, EchoFire 0]) = PTap
   \<and> eo_cues (foldl GameEchoOrb_step (GameEchoOrb_mount 0) [EchoFire 0, EchoFire 0])
       = [(0, Tone 240 0.1), (0, Vibrate [10])]"
  by (simp add: echo_defs)

text \<open>
  Claim C8, amended. In every listen phase of a session (a mounted component in phase
  listen, after any sequence of events) one timer is pending and the last cues given are
  the tone and the vibration of the listen effect, both at the time \<open>T\<close> the phase began:
  first the pulse is on and the timer due at \<open>T + 300\<close> fires, which switches the pulse
  off, gives no cue and sets a timer \<open>intervalMs\<close> later; then that timer fires, which
  gives no cue and makes the phase tap. Neither timer changes the interval. The interval
  is 800 in the first cycle; on each return to listen it is drawn anew: the timer of the
  result phase, when it fires on a mounted component, sets the interval to
  \<open>rand u 500 1400\<close> for the random number \<open>u\<close> it draws, makes the phase listen and
  gives the one cue of the new phase. So the interval of a listen phase is 800 or
  \<open>rand v 500 1400\<close> for the number \<open>v\<close> drawn by a timer, and such an interval is at least
  500 and below 1400 (for \<open>0 \<le> u < 1\<close>).
\<close>

theorem echo_listen_phase:
  assumes "s = foldl GameEchoOrb_step (GameEchoOrb_mount T0) es"
    and "eo_mounted s" and "eo_phase s = PListen"
  shows "listen_shape s
    \<and> eo_cues (GameEchoOrb_fire u s) = eo_cues s
    \<and> eo_pulse (GameEchoOrb_fire u s) = 0
    \<and> (if eo_pulse s = 1
        then eo_phase (GameEchoOrb_fire u s) = PListen \<and> listen_shape (GameEchoOrb_fire u s)
          \<and> due (hd (eo_pending (GameEchoOrb_fire u s)))
              = due (hd (eo_pending s)) + max 0 (eo_intervalMs s)
        else eo_phase (GameEchoOrb_fire u s) = PTap \<and> eo_pending (GameEchoOrb_fire u s) = [])
    \<and> eo_intervalMs GameEchoOrb_init = 800
    \<and> (0 \<le> u \<and> u < 1 \<longrightarrow> 500 \<le> rand u 500 1400 \<and> rand u 500 1400 < 1400)
    \<and> eo_intervalMs (GameEchoOrb_fire u s) = eo_intervalMs s
    \<and> (eo_intervalMs s = 800
        \<or> (\<exists>v. EchoFire v \<in> set es \<and> eo_intervalMs s = rand v 500 1400))
    \<and> (eo_mounted st \<longrightarrow>
         eo_intervalMs (GameEchoOrb_run u now EchoResultDone st) = rand u 500 1400
         \<and> eo_phase (GameEchoOrb_run u now EchoResultDone st) = PListen
         \<and> eo_taps (GameEchoOrb_run u now EchoResultDone st) = [])
    \<and> (eo_mounted (foldl GameEchoOrb_step (GameEchoOrb_mount Tr) rs)
        \<and> eo_phase (foldl GameEchoOrb_step (GameEchoOrb_mount Tr) rs) = PResult \<longrightarrow>
         eo_intervalMs (GameEchoOrb_fire u (foldl GameEchoOrb_step (GameEchoOrb_mount Tr) rs))
           = rand u 500 1400
         \<and> eo_phase (GameEchoOrb_fire u (foldl GameEchoOrb_step (GameEchoOrb_mount Tr) rs)) = PListen
         \<and> eo_pulse (GameEchoOrb_fire u (foldl GameEchoOrb_step (GameEchoOrb_mount Tr) rs)) = 1
         \<and> eo_cues (GameEchoOrb_fire u (foldl GameEchoOrb_step (GameEchoOrb_mount Tr) rs)) =
             eo_cues (foldl GameEchoOrb_step (GameEchoOrb_mount Tr) rs) @
               [(due (hd (eo_pending (foldl GameEchoOrb_step (GameEchoOrb_mount Tr) rs))), Tone 240 0.1),
                (due (hd (eo_pending (foldl GameEchoOrb_step (GameEchoOrb_mount Tr) rs))), Vibrate [10])]
         \<and> map due (eo_pending (GameEchoOrb_fire u (foldl GameEchoOrb_step (GameEchoOrb_mount Tr) rs)))
             = [due (hd (eo_pending (foldl GameEchoOrb_step (GameEchoOrb_mount Tr) rs))) + 300])"
proof -
  have "eo_mounted s \<longrightarrow> echo_shape s"
    unfolding assms(1) using echo_shape_mount [of T0] by (intro echo_shape_run) simp
  with assms have ls: "listen_shape s" by (simp add: echo_shape_def)
  have r: "0 \<le> u \<and> u < 1 \<longrightarrow> 500 \<le> rand u 500 1400 \<and> rand u 500 1400 < 1400"
    using rand_range [of u 500 1400] by simp
  have old: "listen_shape s
    \<and> eo_cues (GameEchoOrb_fire u s) = eo_cues s
    \<and> eo_pulse (GameEchoOrb_fire u s) = 0
    \<and> (if eo_pulse s = 1
        then eo_phase (GameEchoOrb_fire u s) = PListen \<and> listen_shape (GameEchoOrb_fire u s)
          \<and> due (hd (eo_pending (GameEchoOrb_fire u s)))
              = due (hd (eo_pending s)) + max 0 (eo_intervalMs s)
        else eo_phase (GameEchoOrb_fire u s) = PTap \<and> eo_pending (GameEchoOrb_fire u s) = [])
    \<and> eo_intervalMs GameEchoOrb_init = 800
    \<and> (0 \<le> u \<and> u < 1 \<longrightarrow> 500 \<le> rand u 500 1400 \<and> rand u 500 1400 < 1400)
    \<and> eo_intervalMs (GameEchoOrb_fire u s) = eo_intervalMs s"
    using ls echo_fire_listen [OF ls assms(2,3), of u] r
    by (simp add: GameEchoOrb_init_def split: if_splits)
  have hist: "eo_intervalMs s = 800
      \<or> (\<exists>v. EchoFire v \<in> set es \<and> eo_intervalMs s = rand v 500 1400)"
    unfolding assms(1) using echo_run_interval [of "GameEchoOrb_mount T0" es]
    by (simp add: echo_mount_interval)
  have fin: "eo_mounted st \<longrightarrow>
         eo_intervalMs (GameEchoOrb_run u now EchoResultDone st) = rand u 500 1400
         \<and> eo_phase (GameEchoOrb_run u now EchoResultDone st) = PListen
         \<and> eo_taps (GameEchoOrb_run u now EchoResultDone st) = []"
    using echo_result_done [of st u now] by blast
  let ?r = "foldl GameEchoOrb_step (GameEchoOrb_mount Tr) rs"
  have rshape: "eo_mounted ?r \<longrightarrow> echo_shape ?r"
    using echo_shape_mount [of Tr] by (intro echo_shape_run) simp
  have res: "eo_mounted ?r \<and> eo_phase ?r = PResult \<longrightarrow>
         eo_intervalMs (GameEchoOrb_fire u ?r) = rand u 500 1400
         \<and> eo_phase (GameEchoOrb_fire u ?r) = PListen
         \<and> eo_pulse (GameEchoOrb_fire u ?r) = 1
         \<and> eo_cues (GameEchoOrb_fire u ?r) =
             eo_cues ?r @ [(due (hd (eo_pending ?r)), Tone 240 0.1),
                           (due (hd (eo_pending ?r)), Vibrate [10])]
         \<and> map due (eo_pending (GameEchoOrb_fire u ?r)) = [due (hd (eo_pending ?r)) + 300]"
    using rshape echo_fire_result [of ?r u] by blast
  from old hist fin res show ?thesis by blast
qed

text \<open>In the first cycle, mounted at time 0: the first timer leaves the cues as they are
  and the next timer is due at 1100; the second timer makes the phase tap. After taps at
  1200 and 2000 the phase is result, and the timer that fires then, drawing 1/2, sets the
  interval to 950 and makes the phase listen.\<close>

theorem echo_listen_phase_witness:
  "eo_mounted (GameEchoOrb_mount 0) \<and> eo_phase (GameEchoOrb_mount 0) = PListen
   \<and> eo_cues (GameEchoOrb_fire 0 (GameEchoOrb_mount 0)) = [(0, Tone 240 0.1), (0, Vibrate [10])]
   \<and> eo_phase (GameEchoOrb_fire 0 (GameEchoOrb_mount 0)) = PListen
   \<and> due (hd (eo_pending (GameEchoOrb_fire 0 (GameEchoOrb_mount 0)))) = 1100
   \<and> eo_mounted (foldl GameEchoOrb_step (GameEchoOrb_mount 0) [EchoFire 0])
   \<and> eo_pulse (foldl GameEchoOrb_step (GameEchoOrb_mount 0) [EchoFire 0]) = 0
   \<and> eo_phase (GameEchoOrb_fire 0 (foldl GameEchoOrb_step (GameEchoOrb_mount 0) [EchoFire 0])) = PTap
   \<and> eo_mounted (foldl GameEchoOrb_step (GameEchoOrb_mount 0)
        [EchoFire 0, EchoFire 0, EchoTap 1200, EchoTap 2000])
   \<and> eo_phase (foldl GameEchoOrb_step (GameEchoOrb_mount 0)
        [EchoFire 0, EchoFire 0, EchoTap 1200, EchoTap 2000]) = PResult
   \<and> eo_intervalMs (GameEchoOrb_fire (1 / 2) (foldl GameEchoOrb_step (GameEchoOrb_mount 0)
        [EchoFire 0, EchoFire 0, EchoTap 1200, EchoTap 2000])) = 950
   \<and> eo_phase (GameEchoOrb_fire (1 / 2) (foldl GameEchoOrb_step (GameEchoOrb_mount 0)
        [EchoFire 0, EchoFire 0, EchoTap 1200, EchoTap 2000])) = PListen"
proof -
  have m: "eo_mounted (GameEchoOrb_mount 0) \<and> eo_phase (GameEchoOrb_mount 0) = PListen
      \<and> eo_pulse (GameEchoOrb_mount 0) = 1 \<and> eo_intervalMs (GameEchoOrb_mount 0) = 800
      \<and> eo_cues (GameEchoOrb_mount 0) = [(0, Tone 240 0.1), (0, Vibrate [10])]
      \<and> due (hd (eo_pending (GameEchoOrb_mount 0))) = 300"
    by (simp add: echo_defs)
  have f: "eo_mounted (foldl GameEchoOrb_step (GameEchoOrb_mount 0) [EchoFire 0])
      \<and> eo_phase (foldl GameEchoOrb_step (GameEchoOrb_mount 0) [EchoFire 0]) = PListen
      \<and> eo_pulse (foldl GameEchoOrb_step (GameEchoOrb_mount 0) [EchoFire 0]) = 0"
    by (simp add: echo_defs)
  have g: "eo_mounted (foldl GameEchoOrb_step (GameEchoOrb_mount 0)
        [EchoFire 0, EchoFire 0, EchoTap 1200, EchoTap 2000])
      \<and> eo_phase (foldl GameEchoOrb_step (GameEchoOrb_mount 0)
        [EchoFire 0, EchoFire 0, EchoTap 1200, EchoTap 2000]) = PResult"
    by (simp add: echo_defs Let_def clamp_def Math_round_def)
  have s0: "GameEchoOrb_mount 0 = foldl GameEchoOrb_step (GameEchoOrb_mount 0) []"
    by simp
  have a: "eo_cues (GameEchoOrb_fire 0 (GameEchoOrb_mount 0)) = [(0, Tone 240 0.1), (0, Vibrate [10])]
      \<and> eo_phase (GameEchoOrb_fire 0 (GameEchoOrb_mount 0)) = PListen
      \<and> due (hd (eo_pending (GameEchoOrb_fire 0 (GameEchoOrb_mount 0)))) = 1100"
    using echo_listen_phase [OF s0, where u = 0] m by simp
  have b: "eo_phase (GameEchoOrb_fire 0 (foldl GameEchoOrb_step (GameEchoOrb_mount 0) [EchoFire 0])) = PTap"
    using echo_listen_phase [OF refl, of 0 "[EchoFire 0]", where u = 0] f by simp
  have c: "eo_intervalMs (GameEchoOrb_fire (1 / 2) (foldl GameEchoOrb_step (GameEchoOrb_mount 0)
        [EchoFire 0, EchoFire 0, EchoTap 1200, EchoTap 2000])) = 950
      \<and> eo_phase (GameEchoOrb_fire (1 / 2) (foldl GameEchoOrb_step (GameEchoOrb_mount 0)
        [EchoFire 0, EchoFire 0, EchoTap 1200, EchoTap 2000])) = PListen"
    using echo_listen_phase [OF s0, where u = "1 / 2" and Tr = 0
        and rs = "[EchoFire 0, EchoFire 0, EchoTap 1200, EchoTap 2000]"] m g
    by (simp add: rand_def)
  from m f g a b c show ?thesis by simp
qed

subsection \<open>Timers left pending\<close>

lemmas heart_defs = GameHeartbeat_init_def GameHeartbeat_onTap_def GameHeartbeat_commit_def
  GameHeartbeat_effect_def GameHeartbeat_tick_def GameHeartbeat_cleanup_def
  GameHeartbeat_unmount_def GameHeartbeat_fire_def setTimeout_def clearTimeout_def
  mean_interval_def tap_intervals_def js_div_pos_def

lemmas pulse_defs = GamePulseLink_start_def GamePulseLink_init_def GamePulseLink_tick_def
  GamePulseLink_fire_def GamePulseLink_unmount_def GamePulseLink_cleanup_def
  setTimeout_def clearTimeout_def

text \<open>
  Claim C9 says that every timer a session sets is cancelled when the session ends. Two
  are not. In EchoOrb the timer set by the second tap is never cleared: after two taps at
  1200 and 2000 and an exit, it is still pending, due at 2700, and when it fires it
  empties the taps of the component that was left. In Heartbeat the variable \<^verbatim>\<open>id\<close>
  holds only the id of the next tick, so the cleanup leaves the timer that switches the
  pulse off: after a calibration ending at 2500 and an exit, it is still pending, due at
  2680. The beat timer of PulseLink is cleared by its cleanup.
\<close>

theorem stale_timers_after_exit:
  "eo_mounted (foldl GameEchoOrb_step (GameEchoOrb_mount 0)
       [EchoFire 0, EchoFire 0, EchoTap 1200, EchoTap 2000, EchoExit]) = False
   \<and> eo_pending (foldl GameEchoOrb_step (GameEchoOrb_mount 0)
       [EchoFire 0, EchoFire 0, EchoTap 1200, EchoTap 2000, EchoExit])
       = [\<lparr>tid = 3, due = 2700, cb = EchoResultDone\<rparr>]
   \<and> eo_taps (foldl GameEchoOrb_step (GameEchoOrb_mount 0)
       [EchoFire 0, EchoFire 0, EchoTap 1200, EchoTap 2000, EchoExit]) = [1200, 2000]
   \<and> eo_taps (foldl GameEchoOrb_step (GameEchoOrb_mount 0)
       [EchoFire 0, EchoFire 0, EchoTap 1200, EchoTap 2000, EchoExit, EchoFire 0]) = []
   \<and> ht_mounted (foldl GameHeartbeat_step GameHeartbeat_init
       [HeartTap 0, HeartTap 500, HeartTap 1000, HeartTap 1500, HeartTap 2000, HeartTap 2500,
        HeartExit]) = False
   \<and> ht_pending (foldl GameHeartbeat_step GameHeartbeat_init
       [HeartTap 0, HeartTap 500, HeartTap 1000, HeartTap 1500, HeartTap 2000, HeartTap 2500,
        HeartExit]) = [\<lparr>tid = 1, due = 2680, cb = HeartPulseOff\<rparr>]
   \<and> pl_pending (foldl GamePulseLink_step (GamePulseLink_start 0 0.5 GamePulseLink_init)
       [PulseFire, PulseFire, PulseExit]) = []"
proof -
  have "eo_mounted (foldl GameEchoOrb_step (GameEchoOrb_mount 0)
       [EchoFire 0, EchoFire 0, EchoTap 1200, EchoTap 2000, EchoExit]) = False
   \<and> eo_pending (foldl GameEchoOrb_step (GameEchoOrb_mount 0)
       [EchoFire 0, EchoFire 0, EchoTap 1200, EchoTap 2000, EchoExit])
       = [\<lparr>tid = 3, due = 2700, cb = EchoResultDone\<rparr>]
   \<and> eo_taps (foldl GameEchoOrb_step (GameEchoOrb_mount 0)
       [EchoFire 0, EchoFire 0, EchoTap 1200, EchoTap 2000, EchoExit]) = [1200, 2000]
   \<and> eo_taps (foldl GameEchoOrb_step (GameEchoOrb_mount 0)
       [EchoFire 0, EchoFire 0, EchoTap 1200, EchoTap 2000, EchoExit, EchoFire 0]) = []"
    by (simp add: echo_defs Let_def clamp_def Math_round_def)
  moreover have "ht_mounted (foldl GameHeartbeat_step GameHeartbeat_init
       [HeartTap 0, HeartTap 500, HeartTap 1000, HeartTap 1500, HeartTap 2000, HeartTap 2500,
        HeartExit]) = False
   \<and> ht_pending (foldl GameHeartbeat_step GameHeartbeat_init
       [HeartTap 0, HeartTap 500, HeartTap 1000, HeartTap 1500, HeartTap 2000, HeartTap 2500,
        HeartExit]) = [\<lparr>tid = 1, due = 2680, cb = HeartPulseOff\<rparr>]"
    by (simp add: heart_defs Let_def clamp_def)
  moreover have "pl_pending (foldl GamePulseLink_step (GamePulseLink_start 0 0.5 GamePulseLink_init)
       [PulseFire, PulseFire, PulseExit]) = []"
    by (simp add: pulse_defs Let_def rand_def Math_round_def)
  ultimately show ?thesis by simp
qed

end
